theory Spec2Isabelle
  imports Complex_Main
begin

section \<open>JavaScript containers\<close>

text \<open>
  A JavaScript \<open>Map\<close> iterates in insertion order and holds one entry per key, so it is
  modelled as an association list. \<open>Map_set\<close> overwrites the value of a present key in
  place and appends a new key at the end; \<open>Map_delete\<close> removes the key.
\<close>

type_synonym ('k, 'v) js_map = "('k \<times> 'v) list"

definition Map_get :: "('k, 'v) js_map \<Rightarrow> 'k \<Rightarrow> 'v option" where
  "Map_get m k = map_of m k"

definition Map_has :: "('k, 'v) js_map \<Rightarrow> 'k \<Rightarrow> bool" where
  "Map_has m k = (map_of m k \<noteq> None)"

fun Map_set :: "('k, 'v) js_map \<Rightarrow> 'k \<Rightarrow> 'v \<Rightarrow> ('k, 'v) js_map" where
  "Map_set [] k v = [(k, v)]"
| "Map_set ((k', v') # m) k v =
     (if k' = k then (k, v) # m else (k', v') # Map_set m k v)"

definition Map_delete :: "('k, 'v) js_map \<Rightarrow> 'k \<Rightarrow> ('k, 'v) js_map" where
  "Map_delete m k = filter (\<lambda>e. fst e \<noteq> k) m"

text \<open>
  A plain object used as a dictionary (a header map) is an association list from property
  names to values; \<open>delete obj[k]\<close> removes the property \<open>k\<close>, compared as an exact string.
\<close>

type_synonym 'v js_object = "(string \<times> 'v) list"

definition delete_prop :: "'v js_object \<Rightarrow> string \<Rightarrow> 'v js_object" where
  "delete_prop obj k = filter (\<lambda>e. fst e \<noteq> k) obj"

text \<open>\<open>String.prototype.toLowerCase\<close>, on the ASCII letters.\<close>

definition lower_char :: "char \<Rightarrow> char" where
  "lower_char c =
     (let n = (of_char c :: nat) in if 65 \<le> n \<and> n \<le> 90 then char_of (n + 32) else c)"

definition toLowerCase :: "string \<Rightarrow> string" where
  "toLowerCase s = map lower_char s"

text \<open>JSON values, for the bodies of HTTP replies.\<close>

datatype json =
    JNull
  | JBool bool
  | JNumber int
  | JString string
  | JArray "json list"
  | JObject "(string \<times> json) list"

section \<open>Header sanitizing (TunnelManager.sanitizeHeaders)\<close>

definition sanitizeHeaders :: "'v js_object \<Rightarrow> 'v js_object" where
  "sanitizeHeaders headers =
     (let sanitized = headers;
          sanitized = delete_prop sanitized ''connection'';
          sanitized = delete_prop sanitized ''keep-alive'';
          sanitized = delete_prop sanitized ''proxy-authenticate'';
          sanitized = delete_prop sanitized ''proxy-authorization'';
          sanitized = delete_prop sanitized ''te'';
          sanitized = delete_prop sanitized ''trailers'';
          sanitized = delete_prop sanitized ''transfer-encoding'';
          sanitized = delete_prop sanitized ''upgrade'';
          sanitized = delete_prop sanitized ''x-target-slave''
      in sanitized)"

section \<open>WebSockets of the ws library\<close>

text \<open>
  A socket is a handle into a store, because the registry, the tunnels and the handlers
  of a connection share sockets by reference. A socket has its \<open>readyState\<close>, the code and
  reason of the \<open>close\<close> call that started its closing handshake, and the frames written to
  it. \<open>send\<close> on a socket that is not \<open>OPEN\<close> writes nothing; \<open>close\<close> starts the closing
  handshake of a socket that is not yet closing and is otherwise without effect. A handle
  with no socket in the store reads as \<open>CLOSED\<close>.
\<close>

datatype readyState = CONNECTING | OPEN | CLOSING | CLOSED

record 'f socket =
  readyState :: readyState
  closeCode :: "(nat \<times> string) option"
  outbox :: "'f list"

type_synonym ws_id = nat

type_synonym 'f sockets = "(ws_id, 'f socket) js_map"

definition readyStateOf :: "'f sockets \<Rightarrow> ws_id \<Rightarrow> readyState" where
  "readyStateOf ss w = (case Map_get ss w of None \<Rightarrow> CLOSED | Some s \<Rightarrow> readyState s)"

definition ws_send :: "'f sockets \<Rightarrow> ws_id \<Rightarrow> 'f \<Rightarrow> 'f sockets" where
  "ws_send ss w f =
     (case Map_get ss w of
        None \<Rightarrow> ss
      | Some s \<Rightarrow>
          if readyState s = OPEN then Map_set ss w (s\<lparr>outbox := outbox s @ [f]\<rparr>) else ss)"

definition ws_close :: "'f sockets \<Rightarrow> ws_id \<Rightarrow> (nat \<times> string) option \<Rightarrow> 'f sockets" where
  "ws_close ss w code =
     (case Map_get ss w of
        None \<Rightarrow> ss
      | Some s \<Rightarrow>
          if readyState s = OPEN \<or> readyState s = CONNECTING
          then Map_set ss w (s\<lparr>readyState := CLOSING, closeCode := code\<rparr>)
          else ss)"

section \<open>Wire messages\<close>

text \<open>
  A frame of the control connection is a JSON object. A parsed frame is a record of its
  fields, each absent (\<open>None\<close>, JavaScript's \<open>undefined\<close> or \<open>null\<close>) or present with a
  value of the type the wire protocol gives it. \<open>JSON.parse\<close> itself belongs to the
  runtime: the handlers take it as a parameter that returns \<open>None\<close> where it throws (and
  for the JSON text \<open>null\<close>, on which reading \<open>message.type\<close> throws into the same \<open>catch\<close>).
\<close>

record message =
  m_type :: "string option"
  m_slaveId :: "string option"
  m_slaveName :: "string option"
  m_secret :: "string option"
  m_requestId :: "string option"
  m_method :: "string option"
  m_path :: "string option"
  m_status :: "int option"
  m_headers :: "string js_object option"
  m_body :: "string option"
  m_error :: "string option"
  m_tunnelId :: "string option"
  m_channel :: "string option"
  m_token :: "string option"
  m_data :: "string option"
  m_timestamp :: "int option"

definition msg :: "string \<Rightarrow> message" where
  "msg ty = \<lparr> m_type = Some ty, m_slaveId = None, m_slaveName = None, m_secret = None,
      m_requestId = None, m_method = None, m_path = None, m_status = None, m_headers = None,
      m_body = None, m_error = None, m_tunnelId = None, m_channel = None, m_token = None,
      m_data = None, m_timestamp = None \<rparr>"

text \<open>Truthiness of an optional string: \<open>undefined\<close>, \<open>null\<close> and \<open>""\<close> are falsy.\<close>

definition truthy :: "string option \<Rightarrow> bool" where
  "truthy v = (case v of None \<Rightarrow> False | Some s \<Rightarrow> s \<noteq> [])"

text \<open>\<open>a || b\<close> on an optional string and a string.\<close>

definition or_else :: "string option \<Rightarrow> string \<Rightarrow> string" where
  "or_else v d = (case v of None \<Rightarrow> d | Some s \<Rightarrow> if s = [] then d else s)"

text \<open>An optional string inside a template literal.\<close>

definition str :: "string option \<Rightarrow> string" where
  "str v = (case v of None \<Rightarrow> ''undefined'' | Some s \<Rightarrow> s)"

section \<open>The master: TunnelManager\<close>

record slave_record =
  s_ws :: ws_id
  s_name :: string
  s_connectedAt :: nat
  s_lastPing :: nat
  s_authenticated :: bool

record http_result =
  r_status :: "int option"
  r_headers :: "string js_object option"
  r_body :: "string option"

datatype outcome = Resolved http_result | Rejected string

record pending_request =
  p_promise :: nat
  p_timeout :: nat

record tunnel =
  t_slaveId :: string
  t_localWs :: "ws_id option"
  t_channel :: "string option"

text \<open>The variables that one call of \<open>handleConnection\<close> closes over.\<close>

record connection =
  c_authenticated :: bool
  c_slaveId :: "string option"
  c_authTimer :: bool

text \<open>
  The state of the master: the fields of the \<open>TunnelManager\<close> object, and the part of the
  runtime its handlers act on: the closures of the accepted connections, the control
  sockets and the user-side sockets, the listeners \<open>createWsTunnel\<close> attaches to a
  user-side socket (each with the tunnel id and the control socket it captured), the armed
  request timers (each with the request id and the promise its callback captured), the
  settled promises of \<open>forwardHttpRequest\<close>, the next fresh promise and timer handle, the
  console, and the queue of the continuations (\<open>.then\<close>, \<open>.catch\<close>) that the message handlers
  have attached to the promise of \<open>handleAuth\<close>, each with its socket and the outcome of the
  promise: the slave id it resolved with, or the message of the error it was rejected with.
  A promise settles once: resolving or rejecting a settled promise changes nothing. The
  synchronous part of a handler runs to completion; a queued continuation runs as an event
  of its own, so that frames the socket delivers in the same turn are handled before it.
  \<open>forwardHttpRequest\<close> takes the chunks of the request body as already read. Time is not
  modelled: a timer is armed or not, and fires as an event. \<open>new Date()\<close> is the parameter
  \<open>now\<close>.
\<close>

record TunnelManager =
  secret :: "string option"
  authTimeout :: nat
  requestTimeout :: nat
  slaves :: "(string, slave_record) js_map"
  pendingRequests :: "(string, pending_request) js_map"
  tunnels :: "(string, tunnel) js_map"
  connections :: "(ws_id, connection) js_map"
  sockets :: "message sockets"
  userSockets :: "string sockets"
  userListeners :: "(ws_id \<times> string \<times> ws_id) list"
  timers :: "(nat, string \<times> nat) js_map"
  promises :: "(nat, outcome) js_map"
  nextHandle :: nat
  console :: "string list"
  continuations :: "(ws_id \<times> (string + string)) list"

record manager_options =
  o_secret :: "string option"
  o_authTimeout :: "nat option"
  o_requestTimeout :: "nat option"

definition nat_or :: "nat option \<Rightarrow> nat \<Rightarrow> nat" where
  "nat_or v d = (case v of None \<Rightarrow> d | Some n \<Rightarrow> if n = 0 then d else n)"

definition TunnelManager_new :: "manager_options \<Rightarrow> string option \<Rightarrow> TunnelManager" where
  "TunnelManager_new options CLUSTER_SECRET =
     \<lparr> secret = (if truthy (o_secret options) then o_secret options else CLUSTER_SECRET),
       authTimeout = nat_or (o_authTimeout options) 10000,
       requestTimeout = nat_or (o_requestTimeout options) 30000,
       slaves = [], pendingRequests = [], tunnels = [],
       connections = [], sockets = [], userSockets = [], userListeners = [],
       timers = [], promises = [], nextHandle = 0, console = [], continuations = [] \<rparr>"

definition console_log :: "string \<Rightarrow> TunnelManager \<Rightarrow> TunnelManager" where
  "console_log line st = st\<lparr>console := console st @ [line]\<rparr>"

definition settle :: "TunnelManager \<Rightarrow> nat \<Rightarrow> outcome \<Rightarrow> TunnelManager" where
  "settle st p out =
     (if Map_has (promises st) p then st else st\<lparr>promises := Map_set (promises st) p out\<rparr>)"

definition clearTimeout :: "TunnelManager \<Rightarrow> nat \<Rightarrow> TunnelManager" where
  "clearTimeout st t = st\<lparr>timers := Map_delete (timers st) t\<rparr>"

definition clearAuthTimer :: "TunnelManager \<Rightarrow> ws_id \<Rightarrow> TunnelManager" where
  "clearAuthTimer st ws =
     (case Map_get (connections st) ws of
        None \<Rightarrow> st
      | Some c \<Rightarrow> st\<lparr>connections := Map_set (connections st) ws (c\<lparr>c_authTimer := False\<rparr>)\<rparr>)"

definition close_control :: "TunnelManager \<Rightarrow> ws_id \<Rightarrow> nat \<Rightarrow> string \<Rightarrow> TunnelManager" where
  "close_control st ws code reason = st\<lparr>sockets := ws_close (sockets st) ws (Some (code, reason))\<rparr>"

definition send_control :: "TunnelManager \<Rightarrow> ws_id \<Rightarrow> message \<Rightarrow> TunnelManager" where
  "send_control st ws m = st\<lparr>sockets := ws_send (sockets st) ws m\<rparr>"

subsection \<open>handleConnection and the authentication timer\<close>

definition handleConnection :: "TunnelManager \<Rightarrow> ws_id \<Rightarrow> TunnelManager" where
  "handleConnection st ws =
     (let st1 = console_log ''[TunnelManager] New connection attempt'' st
      in st1\<lparr>connections := Map_set (connections st1) ws
               \<lparr> c_authenticated = False, c_slaveId = None, c_authTimer = True \<rparr>\<rparr>)"

definition authTimer_fires :: "TunnelManager \<Rightarrow> ws_id \<Rightarrow> TunnelManager" where
  "authTimer_fires st ws =
     (case Map_get (connections st) ws of
        None \<Rightarrow> st
      | Some c \<Rightarrow>
          if \<not> c_authTimer c then st
          else
            (let st1 = clearAuthTimer st ws
             in if \<not> c_authenticated c
                then close_control
                       (console_log ''[TunnelManager] Authentication timeout, closing connection'' st1)
                       ws 4001 ''Authentication timeout''
                else st1))"

subsection \<open>handleAuth\<close>

definition handleAuth ::
  "nat \<Rightarrow> TunnelManager \<Rightarrow> ws_id \<Rightarrow> message \<Rightarrow> string + (TunnelManager \<times> string)" where
  "handleAuth now st ws message =
     (case m_slaveId message of
        None \<Rightarrow> Inl ''Missing slaveId or secret''
      | Some slaveId \<Rightarrow>
          if slaveId = [] \<or> \<not> truthy (m_secret message) then Inl ''Missing slaveId or secret''
          else if m_secret message \<noteq> secret st then Inl ''Invalid secret''
          else
            (let st1 =
                   (case Map_get (slaves st) slaveId of
                      None \<Rightarrow> st
                    | Some existing \<Rightarrow>
                        if readyStateOf (sockets st) (s_ws existing) = OPEN
                        then close_control
                               (console_log (''[TunnelManager] Replacing existing connection for slave: ''
                                       @ slaveId) st)
                               (s_ws existing) 4004 ''Replaced by new connection''
                        else st);
                 st2 = clearAuthTimer st1 ws;
                 st3 = st2\<lparr>slaves := Map_set (slaves st2) slaveId
                            \<lparr> s_ws = ws, s_name = or_else (m_slaveName message) slaveId,
                              s_connectedAt = now, s_lastPing = now,
                              s_authenticated = True \<rparr>\<rparr>;
                 st4 = console_log (''[TunnelManager] Slave authenticated: '' @ slaveId @ '' (''
                              @ or_else (m_slaveName message) slaveId @ '')'') st3;
                 st5 = send_control st4 ws ((msg ''auth_success'')\<lparr>m_slaveId := Some slaveId\<rparr>)
             in Inr (st5, slaveId)))"

subsection \<open>Messages of an authenticated slave\<close>

definition handleHttpResponse :: "TunnelManager \<Rightarrow> message \<Rightarrow> TunnelManager" where
  "handleHttpResponse st message =
     (case (case m_requestId message of
              None \<Rightarrow> None
            | Some requestId \<Rightarrow> Map_get (pendingRequests st) requestId) of
        None \<Rightarrow>
          console_log (''[TunnelManager] No pending request for '' @ str (m_requestId message)) st
      | Some pending \<Rightarrow>
          (let st1 = clearTimeout st (p_timeout pending);
               st2 = st1\<lparr>pendingRequests :=
                          Map_delete (pendingRequests st1) (str (m_requestId message))\<rparr>
           in if truthy (m_error message)
              then settle st2 (p_promise pending) (Rejected (str (m_error message)))
              else settle st2 (p_promise pending)
                     (Resolved \<lparr> r_status = m_status message, r_headers = m_headers message,
                                 r_body = m_body message \<rparr>)))"

text \<open>
  \<open>localWs.send(data)\<close> with \<open>data\<close> absent sends an empty message (\<open>data || EMPTY_BUFFER\<close> in
  the ws library), here the empty string.
\<close>

definition handleWsTunnelData :: "TunnelManager \<Rightarrow> message \<Rightarrow> TunnelManager" where
  "handleWsTunnelData st message =
     (case (case m_tunnelId message of
              None \<Rightarrow> None
            | Some tunnelId \<Rightarrow> Map_get (tunnels st) tunnelId) of
        None \<Rightarrow>
          console_log (''[TunnelManager] No tunnel found for '' @ str (m_tunnelId message)) st
      | Some tunnel \<Rightarrow>
          (case t_localWs tunnel of
             None \<Rightarrow> st
           | Some localWs \<Rightarrow>
               if readyStateOf (userSockets st) localWs = OPEN
               then st\<lparr>userSockets := ws_send (userSockets st) localWs
                                        (case m_data message of None \<Rightarrow> [] | Some d \<Rightarrow> d)\<rparr>
               else st))"

definition close_localWs :: "TunnelManager \<Rightarrow> tunnel \<Rightarrow> TunnelManager" where
  "close_localWs st tunnel =
     (case t_localWs tunnel of
        None \<Rightarrow> st
      | Some localWs \<Rightarrow>
          if readyStateOf (userSockets st) localWs = OPEN
          then st\<lparr>userSockets := ws_close (userSockets st) localWs None\<rparr>
          else st)"

definition handleWsTunnelClosed :: "TunnelManager \<Rightarrow> message \<Rightarrow> TunnelManager" where
  "handleWsTunnelClosed st message =
     (case m_tunnelId message of
        None \<Rightarrow> st
      | Some tunnelId \<Rightarrow>
          (case Map_get (tunnels st) tunnelId of
             None \<Rightarrow> st
           | Some tunnel \<Rightarrow>
               (let st1 = close_localWs st tunnel
                in st1\<lparr>tunnels := Map_delete (tunnels st1) tunnelId\<rparr>)))"

definition handlePing :: "nat \<Rightarrow> TunnelManager \<Rightarrow> string option \<Rightarrow> message \<Rightarrow> TunnelManager" where
  "handlePing now st slaveId message =
     (case (case slaveId of None \<Rightarrow> None | Some sid \<Rightarrow> Map_get (slaves st) sid) of
        None \<Rightarrow> st
      | Some slave \<Rightarrow>
          (let st1 = st\<lparr>slaves := Map_set (slaves st) (str slaveId) (slave\<lparr>s_lastPing := now\<rparr>)\<rparr>
           in send_control st1 (s_ws slave)
                ((msg ''pong'')\<lparr>m_timestamp := m_timestamp message\<rparr>)))"

definition handleSlaveError :: "TunnelManager \<Rightarrow> string option \<Rightarrow> message \<Rightarrow> TunnelManager" where
  "handleSlaveError st slaveId message =
     (let st1 = console_log (''[TunnelManager] Error from slave '' @ str slaveId @ '':'') st
      in if truthy (m_requestId message)
         then (case Map_get (pendingRequests st1) (str (m_requestId message)) of
                 None \<Rightarrow> st1
               | Some pending \<Rightarrow>
                   (let st2 = clearTimeout st1 (p_timeout pending);
                        st3 = st2\<lparr>pendingRequests :=
                                   Map_delete (pendingRequests st2) (str (m_requestId message))\<rparr>
                    in settle st3 (p_promise pending)
                         (Rejected (or_else (m_error message) ''Slave error''))))
         else st1)"

definition handleSlaveMessage ::
  "nat \<Rightarrow> TunnelManager \<Rightarrow> string option \<Rightarrow> message \<Rightarrow> TunnelManager" where
  "handleSlaveMessage now st slaveId message =
     (if m_type message = Some ''response'' then handleHttpResponse st message
      else if m_type message = Some ''ws_data'' then handleWsTunnelData st message
      else if m_type message = Some ''ws_tunnel_closed'' then handleWsTunnelClosed st message
      else if m_type message = Some ''ping'' then handlePing now st slaveId message
      else if m_type message = Some ''error'' then handleSlaveError st slaveId message
      else console_log (''[TunnelManager] Unknown message type from '' @ str slaveId @ '':'') st)"

subsection \<open>The handlers of a control connection\<close>

definition on_message ::
  "(string \<Rightarrow> message option) \<Rightarrow> nat \<Rightarrow> TunnelManager \<Rightarrow> ws_id \<Rightarrow> string \<Rightarrow> TunnelManager" where
  "on_message JSON_parse now st ws data =
     (case Map_get (connections st) ws of
        None \<Rightarrow> st
      | Some c \<Rightarrow>
          (case JSON_parse data of
             None \<Rightarrow> console_log ''[TunnelManager] Error parsing message:'' st
           | Some message \<Rightarrow>
               if \<not> c_authenticated c then
                 if m_type message = Some ''auth'' then
                   (case handleAuth now st ws message of
                      Inr (st1, ident) \<Rightarrow>
                        st1\<lparr>continuations := continuations st1 @ [(ws, Inr ident)]\<rparr>
                    | Inl err \<Rightarrow> st\<lparr>continuations := continuations st @ [(ws, Inl err)]\<rparr>)
                 else close_control st ws 4003 ''Expected auth message''
               else handleSlaveMessage now st (c_slaveId c) message))"

text \<open>
  The continuations of \<open>handleAuth(...)\<close> in the message handler: \<open>.then\<close> sets the
  variables \<open>authenticated\<close> and \<open>slaveId\<close> of the connection, \<open>.catch\<close> logs and closes the
  socket with code 4002. \<open>run_continuation\<close> runs the first queued one.
\<close>

definition auth_settled :: "TunnelManager \<Rightarrow> ws_id \<Rightarrow> string + string \<Rightarrow> TunnelManager" where
  "auth_settled st ws result =
     (case result of
        Inr ident \<Rightarrow>
          (case Map_get (connections st) ws of
             None \<Rightarrow> st
           | Some c \<Rightarrow>
               st\<lparr>connections := Map_set (connections st) ws
                      (c\<lparr>c_authenticated := True, c_slaveId := Some ident\<rparr>)\<rparr>)
      | Inl err \<Rightarrow>
          close_control (console_log (''[TunnelManager] Auth failed: '' @ err) st)
            ws 4002 ''Authentication failed'')"

definition run_continuation :: "TunnelManager \<Rightarrow> TunnelManager" where
  "run_continuation st =
     (case continuations st of
        [] \<Rightarrow> st
      | (ws, result) # rest \<Rightarrow> auth_settled (st\<lparr>continuations := rest\<rparr>) ws result)"

text \<open>The loop of the close handler over \<open>this.tunnels.entries()\<close>.\<close>

fun cleanup_tunnels :: "(string \<times> tunnel) list \<Rightarrow> string \<Rightarrow> TunnelManager \<Rightarrow> TunnelManager" where
  "cleanup_tunnels [] slaveId st = st"
| "cleanup_tunnels ((tunnelId, tunnel) # entries) slaveId st =
     (if t_slaveId tunnel = slaveId
      then (let st1 = close_localWs st tunnel
            in cleanup_tunnels entries slaveId
                 (st1\<lparr>tunnels := Map_delete (tunnels st1) tunnelId\<rparr>))
      else cleanup_tunnels entries slaveId st)"

definition on_close :: "TunnelManager \<Rightarrow> ws_id \<Rightarrow> TunnelManager" where
  "on_close st ws =
     (case Map_get (connections st) ws of
        None \<Rightarrow> st
      | Some c \<Rightarrow>
          (let st1 = clearAuthTimer st ws
           in if truthy (c_slaveId c) \<and> Map_has (slaves st1) (str (c_slaveId c))
              then (let st2 = console_log (''[TunnelManager] Slave disconnected: ''
                                             @ str (c_slaveId c)) st1;
                        st3 = st2\<lparr>slaves := Map_delete (slaves st2) (str (c_slaveId c))\<rparr>
                    in cleanup_tunnels (tunnels st3) (str (c_slaveId c)) st3)
              else st1))"

definition on_error :: "TunnelManager \<Rightarrow> ws_id \<Rightarrow> TunnelManager" where
  "on_error st ws = console_log ''[TunnelManager] WebSocket error:'' st"

subsection \<open>forwardHttpRequest and its timeout\<close>

record request =
  q_method :: string
  q_url :: string
  q_headers :: "string js_object"
  q_chunks :: "string list"

text \<open>
  \<open>randomUUID()\<close> is the parameter \<open>requestId\<close>. The function is \<open>async\<close>: it returns a
  promise, here the handle \<open>nextHandle st\<close>, and a \<open>throw\<close> rejects that promise.
\<close>

definition forwardHttpRequest ::
  "TunnelManager \<Rightarrow> string \<Rightarrow> request \<Rightarrow> string \<Rightarrow> TunnelManager \<times> nat" where
  "forwardHttpRequest st slaveId request requestId =
     (let promise = nextHandle st;
          st0 = st\<lparr>nextHandle := Suc (nextHandle st)\<rparr>
      in case Map_get (slaves st0) slaveId of
           None \<Rightarrow> (settle st0 promise (Rejected (''Slave '' @ slaveId @ '' not connected'')), promise)
         | Some slave \<Rightarrow>
             if readyStateOf (sockets st0) (s_ws slave) \<noteq> OPEN
             then (settle st0 promise (Rejected (''Slave '' @ slaveId @ '' not connected'')), promise)
             else
               (let body = (if q_method request \<noteq> ''GET'' \<and> q_method request \<noteq> ''HEAD''
                            then Some (concat (q_chunks request)) else None);
                    timeout = promise;
                    st1 = st0\<lparr>timers := Map_set (timers st0) timeout (requestId, promise)\<rparr>;
                    st2 = st1\<lparr>pendingRequests := Map_set (pendingRequests st1) requestId
                               \<lparr> p_promise = promise, p_timeout = timeout \<rparr>\<rparr>
                in (send_control st2 (s_ws slave)
                      ((msg ''http_request'')
                         \<lparr> m_requestId := Some requestId,
                           m_method := Some (q_method request),
                           m_path := Some (q_url request),
                           m_headers := Some (sanitizeHeaders (q_headers request)),
                           m_body := body \<rparr>),
                    promise)))"

definition requestTimeout_fires :: "TunnelManager \<Rightarrow> nat \<Rightarrow> TunnelManager" where
  "requestTimeout_fires st timeout =
     (case Map_get (timers st) timeout of
        None \<Rightarrow> st
      | Some (requestId, promise) \<Rightarrow>
          (let st1 = st\<lparr>timers := Map_delete (timers st) timeout\<rparr>;
               st2 = st1\<lparr>pendingRequests := Map_delete (pendingRequests st1) requestId\<rparr>
           in settle st2 promise (Rejected ''Request timeout'')))"

subsection \<open>createWsTunnel and the listeners of the user-side socket\<close>

text \<open>
  \<open>randomUUID()\<close> is the parameter \<open>tunnelId\<close>. With no user-side socket, \<open>localWs.on\<close>
  throws after the tunnel has been stored and announced.
\<close>

definition createWsTunnel ::
  "TunnelManager \<Rightarrow> string \<Rightarrow> ws_id option \<Rightarrow> string option \<Rightarrow> string option \<Rightarrow> string
     \<Rightarrow> TunnelManager \<times> (string + string)" where
  "createWsTunnel st slaveId localWs channel token tunnelId =
     (case Map_get (slaves st) slaveId of
        None \<Rightarrow> (st, Inl (''Slave '' @ slaveId @ '' not connected''))
      | Some slave \<Rightarrow>
          if readyStateOf (sockets st) (s_ws slave) \<noteq> OPEN
          then (st, Inl (''Slave '' @ slaveId @ '' not connected''))
          else
            (let st1 = st\<lparr>tunnels := Map_set (tunnels st) tunnelId
                            \<lparr> t_slaveId = slaveId, t_localWs = localWs, t_channel = channel \<rparr>\<rparr>;
                 st2 = send_control st1 (s_ws slave)
                         ((msg ''ws_tunnel_open'')
                            \<lparr> m_tunnelId := Some tunnelId, m_channel := channel,
                              m_token := token \<rparr>)
             in case localWs of
                  None \<Rightarrow> (st2, Inl ''TypeError'')
                | Some u \<Rightarrow>
                    (st2\<lparr>userListeners := userListeners st2 @ [(u, tunnelId, s_ws slave)]\<rparr>,
                     Inr tunnelId)))"

fun user_message_listeners ::
  "(ws_id \<times> string \<times> ws_id) list \<Rightarrow> ws_id \<Rightarrow> string \<Rightarrow> TunnelManager \<Rightarrow> TunnelManager" where
  "user_message_listeners [] localWs d st = st"
| "user_message_listeners ((u, tunnelId, slave_ws) # ls) localWs d st =
     user_message_listeners ls localWs d
       (if u = localWs \<and> readyStateOf (sockets st) slave_ws = OPEN
        then send_control st slave_ws
               ((msg ''ws_message'')\<lparr>m_tunnelId := Some tunnelId, m_data := Some d\<rparr>)
        else st)"

definition user_on_message :: "TunnelManager \<Rightarrow> ws_id \<Rightarrow> string \<Rightarrow> TunnelManager" where
  "user_on_message st localWs d = user_message_listeners (userListeners st) localWs d st"

fun user_close_listeners ::
  "(ws_id \<times> string \<times> ws_id) list \<Rightarrow> ws_id \<Rightarrow> TunnelManager \<Rightarrow> TunnelManager" where
  "user_close_listeners [] localWs st = st"
| "user_close_listeners ((u, tunnelId, slave_ws) # ls) localWs st =
     user_close_listeners ls localWs
       (if u = localWs
        then (let st1 = (if readyStateOf (sockets st) slave_ws = OPEN
                         then send_control st slave_ws
                                ((msg ''ws_tunnel_close'')\<lparr>m_tunnelId := Some tunnelId\<rparr>)
                         else st)
              in st1\<lparr>tunnels := Map_delete (tunnels st1) tunnelId\<rparr>)
        else st)"

definition user_on_close :: "TunnelManager \<Rightarrow> ws_id \<Rightarrow> TunnelManager" where
  "user_on_close st localWs = user_close_listeners (userListeners st) localWs st"

subsection \<open>Queries on the registry\<close>

record slave_info =
  i_id :: string
  i_name :: string
  i_connectedAt :: nat
  i_lastPing :: nat
  i_status :: string

definition slave_info_of :: "TunnelManager \<Rightarrow> string \<Rightarrow> slave_record \<Rightarrow> slave_info" where
  "slave_info_of st ident slave =
     \<lparr> i_id = ident, i_name = s_name slave, i_connectedAt = s_connectedAt slave,
       i_lastPing = s_lastPing slave,
       i_status = (if readyStateOf (sockets st) (s_ws slave) = OPEN
                   then ''connected'' else ''disconnected'') \<rparr>"

definition getSlaves :: "TunnelManager \<Rightarrow> slave_info list" where
  "getSlaves st = map (\<lambda>e. slave_info_of st (fst e) (snd e)) (slaves st)"

definition getSlave :: "TunnelManager \<Rightarrow> string \<Rightarrow> slave_info option" where
  "getSlave st slaveId =
     (case Map_get (slaves st) slaveId of
        None \<Rightarrow> None
      | Some slave \<Rightarrow> Some (slave_info_of st slaveId slave))"

definition isSlaveConnected :: "TunnelManager \<Rightarrow> string \<Rightarrow> bool" where
  "isSlaveConnected st slaveId =
     (case Map_get (slaves st) slaveId of
        None \<Rightarrow> False
      | Some slave \<Rightarrow> readyStateOf (sockets st) (s_ws slave) = OPEN)"

subsection \<open>The events of the master\<close>

text \<open>
  One step of the master is one event of the runtime followed by the handler the code
  installed for it, or the first queued continuation. The server accepts a control socket
  (it is \<open>OPEN\<close>) and calls \<open>handleConnection\<close>; a socket that emits \<open>close\<close> is \<open>CLOSED\<close> when its
  handler runs. The HTTP layer calls \<open>forwardHttpRequest\<close> and \<open>createWsTunnel\<close> with fresh
  identifiers. The runtime runs a queued continuation before it takes the next event from
  the network; the steps allow every order, which includes that one.
\<close>

definition fresh_socket :: "'f socket" where
  "fresh_socket = \<lparr> readyState = OPEN, closeCode = None, outbox = [] \<rparr>"

definition set_closed :: "'f sockets \<Rightarrow> ws_id \<Rightarrow> 'f sockets" where
  "set_closed ss w =
     (case Map_get ss w of None \<Rightarrow> ss | Some s \<Rightarrow> Map_set ss w (s\<lparr>readyState := CLOSED\<rparr>))"

datatype event =
    Accept ws_id
  | AuthTimer ws_id
  | Message ws_id string nat
  | Continuation
  | Close ws_id
  | Error ws_id
  | Forward string request string
  | RequestTimer nat
  | UserAccept ws_id
  | CreateTunnel string "ws_id option" "string option" "string option" string
  | UserMessage ws_id string
  | UserClose ws_id

fun step :: "(string \<Rightarrow> message option) \<Rightarrow> TunnelManager \<Rightarrow> event \<Rightarrow> TunnelManager" where
  "step JSON_parse st (Accept ws) =
     (if Map_has (sockets st) ws then st
      else handleConnection (st\<lparr>sockets := Map_set (sockets st) ws fresh_socket\<rparr>) ws)"
| "step JSON_parse st (AuthTimer ws) = authTimer_fires st ws"
| "step JSON_parse st (Message ws d now) =
     (if readyStateOf (sockets st) ws = OPEN \<or> readyStateOf (sockets st) ws = CLOSING
      then on_message JSON_parse now st ws d else st)"
| "step JSON_parse st Continuation = run_continuation st"
| "step JSON_parse st (Close ws) =
     (if readyStateOf (sockets st) ws = CLOSED then st
      else on_close (st\<lparr>sockets := set_closed (sockets st) ws\<rparr>) ws)"
| "step JSON_parse st (Error ws) = on_error st ws"
| "step JSON_parse st (Forward slaveId request requestId) =
     fst (forwardHttpRequest st slaveId request requestId)"
| "step JSON_parse st (RequestTimer timeout) = requestTimeout_fires st timeout"
| "step JSON_parse st (UserAccept u) =
     (if Map_has (userSockets st) u then st
      else st\<lparr>userSockets := Map_set (userSockets st) u fresh_socket\<rparr>)"
| "step JSON_parse st (CreateTunnel slaveId localWs channel token tunnelId) =
     fst (createWsTunnel st slaveId localWs channel token tunnelId)"
| "step JSON_parse st (UserMessage u d) =
     (if readyStateOf (userSockets st) u = OPEN then user_on_message st u d else st)"
| "step JSON_parse st (UserClose u) =
     (if readyStateOf (userSockets st) u = CLOSED then st
      else user_on_close (st\<lparr>userSockets := set_closed (userSockets st) u\<rparr>) u)"

fun run :: "(string \<Rightarrow> message option) \<Rightarrow> TunnelManager \<Rightarrow> event list \<Rightarrow> TunnelManager" where
  "run JSON_parse st [] = st"
| "run JSON_parse st (ev # evs) = run JSON_parse (step JSON_parse st ev) evs"

section \<open>The routing middleware (createRequestRouter)\<close>

fun startsWith :: "string \<Rightarrow> string \<Rightarrow> bool" where
  "startsWith s [] = True"
| "startsWith [] (c # cs) = False"
| "startsWith (x # xs) (c # cs) = (x = c \<and> startsWith xs cs)"

fun includes_str :: "string \<Rightarrow> string \<Rightarrow> bool" where
  "includes_str [] sub = (sub = [])"
| "includes_str (x # xs) sub = (startsWith (x # xs) sub \<or> includes_str xs sub)"

text \<open>
  A reply of the HTTP server: the status, the headers set with \<open>res.setHeader\<close>, and the
  body, written with \<open>res.json\<close> or with \<open>res.send\<close>.
\<close>

datatype reply_body = JsonBody json | SendBody "string option"

record http_reply =
  y_status :: int
  y_headers :: "string js_object"
  y_body :: reply_body

text \<open>
  The middleware up to its \<open>await\<close>: it calls \<open>next()\<close>, replies at once, or waits for the
  promise of \<open>forwardHttpRequest\<close>. The request's header map is that of the HTTP server,
  which holds one string per header name.
\<close>

datatype routing = Next | Replied http_reply | Awaiting string nat

definition createRequestRouter ::
  "TunnelManager \<Rightarrow> string \<Rightarrow> request \<Rightarrow> string \<Rightarrow> TunnelManager \<times> routing" where
  "createRequestRouter st originalUrl req requestId =
     (let targetSlave = map_of (q_headers req) ''x-target-slave'';
          st0 = (if includes_str originalUrl ''onboarding''
                 then console_log (''[RequestRouter] Onboarding request: '' @ q_method req @ '' ''
                                     @ originalUrl @ '' target: '' @ or_else targetSlave ''local'') st
                 else st)
      in if \<not> truthy targetSlave \<or> targetSlave = Some ''local'' then (st0, Next)
         else if \<not> isSlaveConnected st0 (str targetSlave)
         then (st0, Replied
                 \<lparr> y_status = 503, y_headers = [],
                   y_body = JsonBody (JObject
                     [(''error'', JString ''Slave not connected''),
                      (''slaveId'', JString (str targetSlave)),
                      (''message'', JString (''The target client '' @ [CHR 0x27] @ str targetSlave
                                              @ [CHR 0x27] @ '' is not currently connected''))]) \<rparr>)
         else (case forwardHttpRequest st0 (str targetSlave) req requestId of
                 (st1, promise) \<Rightarrow> (st1, Awaiting (str targetSlave) promise)))"

definition tunnel_error :: "string js_object \<Rightarrow> string \<Rightarrow> string \<Rightarrow> http_reply" where
  "tunnel_error headers_set targetSlave message =
     \<lparr> y_status = 502, y_headers = headers_set,
       y_body = JsonBody (JObject
         [(''error'', JString ''Tunnel error''),
          (''slaveId'', JString targetSlave),
          (''message'', JString message)]) \<rparr>"

text \<open>
  \<open>res.setHeader\<close> keeps one entry per header name, compared without regard to letter case:
  a later call replaces the name and the value of the entry.
\<close>

fun setHeader :: "string js_object \<Rightarrow> string \<Rightarrow> string \<Rightarrow> string js_object" where
  "setHeader [] name val = [(name, val)]"
| "setHeader ((k, v) # hs) name val =
     (if toLowerCase k = toLowerCase name then (name, val) # hs
      else (k, v) # setHeader hs name val)"

text \<open>The loop over \<open>Object.entries(response.headers)\<close>, on the headers set so far.\<close>

fun set_response_headers :: "string js_object \<Rightarrow> string js_object \<Rightarrow> string js_object" where
  "set_response_headers [] acc = acc"
| "set_response_headers ((key, val) # entries) acc =
     set_response_headers entries
       (if toLowerCase key \<noteq> ''transfer-encoding'' \<and> toLowerCase key \<noteq> ''connection''
        then setHeader acc key val else acc)"

text \<open>
  The middleware after its \<open>await\<close>, for a settled promise. A rejection, and every exception
  of the \<open>try\<close> block, ends in the \<open>catch\<close>: \<open>Object.entries\<close> throws on absent headers, and
  the server refuses to write a reply whose status is absent or outside 100..999 (the
  texts of these two errors are the runtime's, here \<open>headers_error\<close> and \<open>status_error\<close>).
  The names and values of the response headers are taken to be ones \<open>res.setHeader\<close>
  accepts. \<open>JSON.parse\<close> of the body is a parameter, as for frames.
\<close>

definition router_continue ::
  "(string \<Rightarrow> json option) \<Rightarrow> string \<Rightarrow> string \<Rightarrow> TunnelManager \<Rightarrow> string \<Rightarrow> outcome
     \<Rightarrow> TunnelManager \<times> http_reply" where
  "router_continue JSON_parse headers_error status_error st targetSlave out =
     (case out of
        Rejected message \<Rightarrow>
          (console_log (''[RequestRouter] Error forwarding to '' @ targetSlave @ '': '' @ message) st,
           tunnel_error [] targetSlave message)
      | Resolved response \<Rightarrow>
          (case r_headers response of
             None \<Rightarrow>
               (console_log (''[RequestRouter] Error forwarding to '' @ targetSlave @ '': ''
                               @ headers_error) st,
                tunnel_error [] targetSlave headers_error)
           | Some hs \<Rightarrow>
               (let headers_set = set_response_headers hs []
                in case r_status response of
                     None \<Rightarrow>
                       (console_log (''[RequestRouter] Error forwarding to '' @ targetSlave @ '': ''
                                       @ status_error) st,
                        tunnel_error headers_set targetSlave status_error)
                   | Some status \<Rightarrow>
                       if status < 100 \<or> 999 < status
                       then (console_log (''[RequestRouter] Error forwarding to '' @ targetSlave
                                            @ '': '' @ status_error) st,
                             tunnel_error headers_set targetSlave status_error)
                       else
                       (st, \<lparr> y_status = status, y_headers = headers_set,
                              y_body = (case r_body response of
                                          None \<Rightarrow> SendBody None
                                        | Some b \<Rightarrow>
                                            (case JSON_parse b of
                                               Some jsonBody \<Rightarrow> JsonBody jsonBody
                                             | None \<Rightarrow> SendBody (Some b))) \<rparr>))))"

subsection \<open>The browser's authenticatedFetch: which requests carry X-Target-Slave\<close>

text \<open>
  The headers \<open>authenticatedFetch\<close> gives to \<open>fetch\<close>: \<open>selected\<close> is the stored
  \<open>cluster-selected-client\<close> item, \<open>options_headers\<close> the caller's \<open>options.headers\<close>, which
  the spread lets override the defaults.
\<close>

definition getSelectedClientId :: "string option \<Rightarrow> string" where
  "getSelectedClientId selected = or_else selected ''local''"

definition authenticatedFetch_headers ::
  "bool \<Rightarrow> string option \<Rightarrow> string option \<Rightarrow> bool \<Rightarrow> string js_object \<Rightarrow> string
     \<Rightarrow> string js_object" where
  "authenticatedFetch_headers isPlatform token selected body_is_FormData options_headers url =
     (let defaultHeaders = [];
          defaultHeaders = (if \<not> body_is_FormData
                            then Map_set defaultHeaders ''Content-Type'' ''application/json''
                            else defaultHeaders);
          defaultHeaders = (if \<not> isPlatform \<and> truthy token
                            then Map_set defaultHeaders ''Authorization'' (''Bearer '' @ str token)
                            else defaultHeaders);
          defaultHeaders =
            (if \<not> startsWith url ''/api/cluster/'' \<and> \<not> startsWith url ''/api/user/''
                \<and> \<not> startsWith url ''/api/auth/''
             then (let selectedClient = getSelectedClientId selected
                   in if selectedClient \<noteq> [] \<and> selectedClient \<noteq> ''local''
                      then Map_set defaultHeaders ''X-Target-Slave'' selectedClient
                      else defaultHeaders)
             else defaultHeaders)
      in fold (\<lambda>e acc. Map_set acc (fst e) (snd e)) options_headers defaultHeaders)"

section \<open>The cluster status API (createClusterRoutes)\<close>

datatype cluster_route = GET_status | GET_slaves | GET_slave string | GET_slave_health string

definition ok_json :: "json \<Rightarrow> http_reply" where
  "ok_json j = \<lparr> y_status = 200, y_headers = [], y_body = JsonBody j \<rparr>"

definition status_json :: "int \<Rightarrow> json \<Rightarrow> http_reply" where
  "status_json code j = \<lparr> y_status = code, y_headers = [], y_body = JsonBody j \<rparr>"

text \<open>
  A \<open>Date\<close> is serialised as the string of \<open>Date.prototype.toISOString\<close>, the parameter
  \<open>toISOString\<close> on timestamps.
\<close>

definition slave_json :: "(nat \<Rightarrow> string) \<Rightarrow> slave_info \<Rightarrow> (string \<times> json) list" where
  "slave_json toISOString s =
     [(''id'', JString (i_id s)), (''name'', JString (i_name s)),
      (''connectedAt'', JString (toISOString (i_connectedAt s))),
      (''lastPing'', JString (toISOString (i_lastPing s))),
      (''status'', JString (i_status s))]"

text \<open>
  \<open>tunnelManager\<close> is \<open>None\<close> when the server made no tunnel manager; \<open>DEPLOYMENT_MODE\<close> is
  the environment variable of that name.
\<close>

definition createClusterRoutes ::
  "(nat \<Rightarrow> string) \<Rightarrow> TunnelManager option \<Rightarrow> string option \<Rightarrow> cluster_route
     \<Rightarrow> http_reply" where
  "createClusterRoutes toISOString tunnelManager DEPLOYMENT_MODE route =
     (case route of
        GET_status \<Rightarrow>
          (let deploymentMode = or_else DEPLOYMENT_MODE ''standalone'';
               slaves_list = (case tunnelManager of Some st \<Rightarrow> getSlaves st | None \<Rightarrow> [])
           in ok_json (JObject
                [(''mode'', JString deploymentMode),
                 (''isMaster'', JBool (deploymentMode = ''master'')),
                 (''connectedSlaves'', JNumber (int (length slaves_list))),
                 (''slaves'', JArray (map (\<lambda>s. JObject
                     [(''id'', JString (i_id s)), (''name'', JString (i_name s)),
                      (''status'', JString (i_status s))]) slaves_list))]))
      | GET_slaves \<Rightarrow>
          (case tunnelManager of
             None \<Rightarrow>
               status_json 400 (JObject
                 [(''error'', JString ''Not in master mode''),
                  (''message'',
                   JString ''Cluster slave management is only available in master mode'')])
           | Some st \<Rightarrow>
               ok_json (JObject
                 [(''success'', JBool True),
                  (''clients'', JArray
                     (JObject [(''id'', JString ''local''), (''name'', JString ''Local Server''),
                               (''status'', JString ''connected''), (''isLocal'', JBool True),
                               (''connectedAt'', JNull), (''lastPing'', JNull)]
                      # map (\<lambda>s. JObject (slave_json toISOString s @ [(''isLocal'', JBool False)]))
                          (getSlaves st)))]))
      | GET_slave ident \<Rightarrow>
          (case tunnelManager of
             None \<Rightarrow> status_json 400 (JObject [(''error'', JString ''Not in master mode'')])
           | Some st \<Rightarrow>
               if ident = ''local''
               then ok_json (JObject
                      [(''success'', JBool True),
                       (''client'', JObject
                          [(''id'', JString ''local''), (''name'', JString ''Local Server''),
                           (''status'', JString ''connected''), (''isLocal'', JBool True)])])
               else (case getSlave st ident of
                       None \<Rightarrow>
                         status_json 404 (JObject
                           [(''error'', JString ''Slave not found''),
                            (''slaveId'', JString ident)])
                     | Some slave \<Rightarrow>
                         ok_json (JObject
                           [(''success'', JBool True),
                            (''client'', JObject (slave_json toISOString slave
                                                   @ [(''isLocal'', JBool False)]))])))
      | GET_slave_health ident \<Rightarrow>
          (case tunnelManager of
             None \<Rightarrow> status_json 400 (JObject [(''error'', JString ''Not in master mode'')])
           | Some st \<Rightarrow>
               if ident = ''local''
               then ok_json (JObject
                      [(''success'', JBool True), (''healthy'', JBool True),
                       (''slaveId'', JString ''local''),
                       (''message'', JString ''Local server is healthy'')])
               else (case getSlave st ident of
                       None \<Rightarrow>
                         status_json 404 (JObject
                           [(''error'', JString ''Slave not found''),
                            (''slaveId'', JString ident), (''healthy'', JBool False)])
                     | Some slave \<Rightarrow>
                         (let isConnected = isSlaveConnected st ident
                          in ok_json (JObject
                               [(''success'', JBool True), (''healthy'', JBool isConnected),
                                (''slaveId'', JString ident),
                                (''name'', JString (i_name slave)),
                                (''status'', JString (i_status slave)),
                                (''lastPing'', JString (toISOString (i_lastPing slave))),
                                (''message'', JString (if isConnected then ''Slave is healthy''
                                                       else ''Slave is disconnected''))])))))"

section \<open>JavaScript numbers\<close>

text \<open>
  A JavaScript number is an IEEE-754 double. Every finite double is an integer multiple of
  \<open>2^-1074\<close>: \<open>Finite N\<close> is the number \<open>N * 2^-1074\<close>, and the doubles are the \<open>Finite N\<close> with
  \<open>\<bar>N\<bar> < 2^2098\<close> (below \<open>2^1024\<close>) whose \<open>N\<close> is a multiple of \<open>2^(l - 53)\<close> when it has \<open>l > 53\<close>
  binary digits (\<open>is_double\<close>); the two infinities and NaN are the other values. The sign of
  zero is not modelled. \<open>number_of_nat n\<close> is the number of the integer literal \<open>n\<close>.
\<close>

datatype number = Finite int | PosInfinity | NegInfinity | NaN

fun bitlength :: "nat \<Rightarrow> nat" where
  "bitlength n = (if n = 0 then 0 else Suc (bitlength (n div 2)))"

declare bitlength.simps [simp del]

definition is_double :: "number \<Rightarrow> bool" where
  "is_double x =
     (case x of
        Finite N \<Rightarrow> \<bar>N\<bar> < 2 ^ 2098 \<and> 2 ^ (bitlength (nat \<bar>N\<bar>) - 53) dvd N
      | _ \<Rightarrow> True)"

definition number_of_nat :: "nat \<Rightarrow> number" where
  "number_of_nat n = Finite (int n * 2 ^ 1074)"

text \<open>
  An arithmetic operation gives the exact result rounded to the nearest double, a tie to
  the one with the even significand, and an infinity when the rounded result reaches
  \<open>2^1024\<close>. \<open>nearest N k\<close> rounds the exact result \<open>N * 2^-k\<close> (in units of \<open>2^-1074\<close>): to a
  multiple of \<open>2^(l - 53)\<close> for \<open>N\<close> of \<open>l\<close> binary digits, and to a multiple of the unit at
  least (the subnormal range). \<open>round_half_even N s\<close> is \<open>N / 2^s\<close> rounded to an integer.
\<close>

definition round_half_even :: "int \<Rightarrow> nat \<Rightarrow> int" where
  "round_half_even N s =
     (let q = N div 2 ^ s; r = N mod 2 ^ s
      in if 2 * r < 2 ^ s then q
         else if 2 ^ s < 2 * r then q + 1
         else if even q then q else q + 1)"

definition nearest :: "int \<Rightarrow> nat \<Rightarrow> int" where
  "nearest N k =
     (let s = max (bitlength (nat \<bar>N\<bar>) - 53) k
      in round_half_even N s * 2 ^ (s - k))"

definition fl :: "int \<Rightarrow> nat \<Rightarrow> number" where
  "fl N k =
     (let M = nearest N k
      in if 2 ^ 2098 \<le> M then PosInfinity
         else if M \<le> - (2 ^ 2098) then NegInfinity
         else Finite M)"

text \<open>The operators \<open>*\<close>, \<open>+\<close>, \<open><=\<close> and \<open><\<close> on numbers.\<close>

fun number_times :: "number \<Rightarrow> number \<Rightarrow> number" where
  "number_times NaN y = NaN"
| "number_times x NaN = NaN"
| "number_times (Finite a) (Finite b) = fl (a * b) 1074"
| "number_times (Finite a) PosInfinity =
     (if a = 0 then NaN else if 0 < a then PosInfinity else NegInfinity)"
| "number_times (Finite a) NegInfinity =
     (if a = 0 then NaN else if 0 < a then NegInfinity else PosInfinity)"
| "number_times PosInfinity (Finite b) =
     (if b = 0 then NaN else if 0 < b then PosInfinity else NegInfinity)"
| "number_times NegInfinity (Finite b) =
     (if b = 0 then NaN else if 0 < b then NegInfinity else PosInfinity)"
| "number_times PosInfinity PosInfinity = PosInfinity"
| "number_times PosInfinity NegInfinity = NegInfinity"
| "number_times NegInfinity PosInfinity = NegInfinity"
| "number_times NegInfinity NegInfinity = PosInfinity"

fun number_plus :: "number \<Rightarrow> number \<Rightarrow> number" where
  "number_plus NaN y = NaN"
| "number_plus x NaN = NaN"
| "number_plus (Finite a) (Finite b) = fl (a + b) 0"
| "number_plus (Finite a) PosInfinity = PosInfinity"
| "number_plus (Finite a) NegInfinity = NegInfinity"
| "number_plus PosInfinity (Finite b) = PosInfinity"
| "number_plus NegInfinity (Finite b) = NegInfinity"
| "number_plus PosInfinity PosInfinity = PosInfinity"
| "number_plus PosInfinity NegInfinity = NaN"
| "number_plus NegInfinity PosInfinity = NaN"
| "number_plus NegInfinity NegInfinity = NegInfinity"

fun number_le :: "number \<Rightarrow> number \<Rightarrow> bool" where
  "number_le NaN y = False"
| "number_le x NaN = False"
| "number_le (Finite a) (Finite b) = (a \<le> b)"
| "number_le NegInfinity y = True"
| "number_le x PosInfinity = True"
| "number_le PosInfinity y = False"
| "number_le x NegInfinity = False"

fun number_less :: "number \<Rightarrow> number \<Rightarrow> bool" where
  "number_less NaN y = False"
| "number_less x NaN = False"
| "number_less (Finite a) (Finite b) = (a < b)"
| "number_less PosInfinity y = False"
| "number_less x NegInfinity = False"
| "number_less NegInfinity y = True"
| "number_less x PosInfinity = True"

text \<open>
  \<open>Math.min\<close> of two numbers, \<open>Math.pow(2, n)\<close> for a counter \<open>n\<close> (the power is a double up
  to \<open>n = 1023\<close> and \<open>Infinity\<close> from there on), and \<open>v || d\<close> for an optional number \<open>v\<close>: 0 and
  NaN are falsy.
\<close>

definition Math_min :: "number \<Rightarrow> number \<Rightarrow> number" where
  "Math_min x y = (if x = NaN \<or> y = NaN then NaN else if number_le x y then x else y)"

definition Math_pow2 :: "nat \<Rightarrow> number" where
  "Math_pow2 n = (if n \<le> 1023 then Finite (2 ^ (n + 1074)) else PosInfinity)"

definition number_or :: "number option \<Rightarrow> number \<Rightarrow> number" where
  "number_or v d = (case v of None \<Rightarrow> d | Some x \<Rightarrow> if x = Finite 0 \<or> x = NaN then d else x)"

section \<open>The slave: TunnelClient\<close>

text \<open>
  The state of the slave: the fields of the \<open>TunnelClient\<close> object and the part of the
  runtime its handlers act on. \<open>ws\<close> is the control socket the client holds, with the
  frames written to it. \<open>reconnectTimer\<close> is the delay given to \<open>setTimeout\<close> for the last
  timer set, in milliseconds, and \<open>reconnectPending\<close> tells whether that timer is still to
  fire. The local WebSockets live in a store; \<open>localDials\<close> keeps, for each one, what the
  listeners of \<open>handleWsTunnelOpen\<close> captured (tunnel id, channel) and the path and token
  of its URL; \<open>localCalls\<close> are the HTTP calls started on the local service. \<open>stop\<close> closes
  the control socket and drops it; the model then holds no socket. The delays are numbers;
  the counter \<open>reconnectAttempts\<close> is a natural number.
\<close>

text \<open>
  The port of the local service: the number of \<open>options.localPort\<close> or the default, or the
  string of the environment variable \<open>PORT\<close>.
\<close>

datatype port = PortNumber nat | PortString string

record local_call =
  lc_requestId :: "string option"
  lc_method :: "string option"
  lc_path :: "string option"
  lc_headers :: "string js_object"
  lc_port :: port
  lc_internal_auth :: "string option"
  lc_body :: "string option"

record local_dial =
  ld_tunnelId :: "string option"
  ld_channel :: "string option"
  ld_wsPath :: string
  ld_token :: "string option"

record TunnelClient =
  masterUrl :: "string option"
  client_slaveId :: "string option"
  slaveName :: "string option"
  client_secret :: "string option"
  localPort :: port
  baseDelay :: number
  maxDelay :: number
  reconnectAttempts :: nat
  ws :: "message socket option"
  authenticated :: bool
  reconnectTimer :: "number option"
  reconnectPending :: bool
  pingInterval :: bool
  localTunnels :: "(string option, ws_id) js_map"
  localSockets :: "string sockets"
  localDials :: "(ws_id, local_dial) js_map"
  localCalls :: "local_call list"
  dialled :: "string list"
  nextLocal :: nat
  client_console :: "string list"

record client_options =
  co_masterUrl :: "string option"
  co_slaveId :: "string option"
  co_slaveName :: "string option"
  co_secret :: "string option"
  co_localPort :: "nat option"
  co_baseDelay :: "number option"
  co_maxDelay :: "number option"

record client_env =
  MASTER_URL :: "string option"
  SLAVE_ID :: "string option"
  SLAVE_NAME :: "string option"
  CLUSTER_SECRET :: "string option"
  PORT :: "string option"

definition opt_or :: "string option \<Rightarrow> string option \<Rightarrow> string option" where
  "opt_or a b = (if truthy a then a else b)"

definition TunnelClient_new :: "client_options \<Rightarrow> client_env \<Rightarrow> TunnelClient" where
  "TunnelClient_new options env =
     \<lparr> masterUrl = opt_or (co_masterUrl options) (MASTER_URL env),
       client_slaveId = opt_or (co_slaveId options) (SLAVE_ID env),
       slaveName = opt_or (co_slaveName options)
                     (opt_or (SLAVE_NAME env) (opt_or (co_slaveId options) (SLAVE_ID env))),
       client_secret = opt_or (co_secret options) (CLUSTER_SECRET env),
       localPort = (case co_localPort options of
                      None \<Rightarrow> if truthy (PORT env) then PortString (str (PORT env))
                              else PortNumber 3001
                    | Some n \<Rightarrow> if n \<noteq> 0 then PortNumber n
                               else if truthy (PORT env) then PortString (str (PORT env))
                               else PortNumber 3001),
       baseDelay = number_or (co_baseDelay options) (number_of_nat 5000),
       maxDelay = number_or (co_maxDelay options) (number_of_nat 60000),
       reconnectAttempts = 0,
       ws = None, authenticated = False, reconnectTimer = None, reconnectPending = False,
       pingInterval = False, localTunnels = [], localSockets = [], localDials = [],
       localCalls = [], dialled = [], nextLocal = 0, client_console = [] \<rparr>"

definition client_log :: "string \<Rightarrow> TunnelClient \<Rightarrow> TunnelClient" where
  "client_log line cl = cl\<lparr>client_console := client_console cl @ [line]\<rparr>"

subsection \<open>send\<close>

definition send :: "TunnelClient \<Rightarrow> message \<Rightarrow> TunnelClient" where
  "send cl message =
     (case ws cl of
        None \<Rightarrow> cl
      | Some sock \<Rightarrow>
          if readyState sock = OPEN
          then cl\<lparr>ws := Some (sock\<lparr>outbox := outbox sock @ [message]\<rparr>)\<rparr>
          else cl)"

subsection \<open>Reconnection\<close>

text \<open>\<open>Math.random()\<close> is the parameter \<open>random\<close>, a double in \<open>[0, 1)\<close>.\<close>

definition scheduleReconnect :: "TunnelClient \<Rightarrow> number \<Rightarrow> TunnelClient" where
  "scheduleReconnect cl random =
     (let cl0 = (if reconnectTimer cl \<noteq> None then cl\<lparr>reconnectPending := False\<rparr> else cl);
          delay = Math_min (number_times (baseDelay cl0) (Math_pow2 (reconnectAttempts cl0)))
                    (maxDelay cl0);
          jitter = number_times random (number_of_nat 1000);
          totalDelay = number_plus delay jitter;
          cl1 = cl0\<lparr>reconnectAttempts := reconnectAttempts cl0 + 1\<rparr>;
          cl2 = client_log ''[TunnelClient] Reconnecting'' cl1
      in cl2\<lparr>reconnectTimer := Some totalDelay, reconnectPending := True\<rparr>)"

text \<open>\<open>masterUrl.replace(/\/?$/, '/cluster/tunnel')\<close>.\<close>

definition tunnelUrl_of :: "string \<Rightarrow> string" where
  "tunnelUrl_of url =
     (if url \<noteq> [] \<and> last url = CHR ''/'' then butlast url else url) @ ''/cluster/tunnel''"

text \<open>
  \<open>dial_error\<close> is the message of the exception \<open>new WebSocket(url)\<close> throws, if it throws.
\<close>

definition connect :: "TunnelClient \<Rightarrow> string option \<Rightarrow> number \<Rightarrow> TunnelClient" where
  "connect cl dial_error random =
     (case masterUrl cl of
        None \<Rightarrow> scheduleReconnect (client_log ''[TunnelClient] Connection error:'' cl) random
      | Some url \<Rightarrow>
          (case dial_error of
             Some err \<Rightarrow>
               scheduleReconnect (client_log ''[TunnelClient] Connection error:'' cl) random
           | None \<Rightarrow>
               cl\<lparr>ws := Some \<lparr> readyState = CONNECTING, closeCode = None, outbox = [] \<rparr>,
                  dialled := dialled cl @ [tunnelUrl_of url]\<rparr>))"

definition start :: "TunnelClient \<Rightarrow> string option \<Rightarrow> number \<Rightarrow> TunnelClient" where
  "start cl dial_error random =
     (if \<not> truthy (masterUrl cl) \<or> \<not> truthy (client_slaveId cl) \<or> \<not> truthy (client_secret cl)
      then client_log
             ''[TunnelClient] Missing required configuration: MASTER_URL, SLAVE_ID, CLUSTER_SECRET''
             cl
      else connect
             (client_log (''[TunnelClient] Connecting to master: '' @ str (masterUrl cl))
                (client_log (''[TunnelClient] Starting tunnel client: '' @ str (client_slaveId cl)
                               @ '' ('' @ str (slaveName cl) @ '')'') cl))
             dial_error random)"

definition authenticate :: "TunnelClient \<Rightarrow> TunnelClient" where
  "authenticate cl =
     send cl ((msg ''auth'')
                \<lparr> m_slaveId := client_slaveId cl, m_slaveName := slaveName cl,
                  m_secret := client_secret cl \<rparr>)"

subsection \<open>Ping\<close>

definition stopPing :: "TunnelClient \<Rightarrow> TunnelClient" where
  "stopPing cl = (if pingInterval cl then cl\<lparr>pingInterval := False\<rparr> else cl)"

definition startPing :: "TunnelClient \<Rightarrow> TunnelClient" where
  "startPing cl = (stopPing cl)\<lparr>pingInterval := True\<rparr>"

definition ping_tick :: "TunnelClient \<Rightarrow> int \<Rightarrow> TunnelClient" where
  "ping_tick cl now =
     (if pingInterval cl
      then (case ws cl of
              None \<Rightarrow> cl
            | Some sock \<Rightarrow>
                if readyState sock = OPEN
                then send cl ((msg ''ping'')\<lparr>m_timestamp := Some now\<rparr>)
                else cl)
      else cl)"

subsection \<open>Frames from the master\<close>

definition handleAuthSuccess :: "TunnelClient \<Rightarrow> message \<Rightarrow> TunnelClient" where
  "handleAuthSuccess cl message =
     (let cl1 = client_log (''[TunnelClient] Authentication successful: ''
                              @ str (m_slaveId message)) cl;
          cl2 = cl1\<lparr>authenticated := True\<rparr>;
          cl3 = cl2\<lparr>reconnectAttempts := 0\<rparr>
      in startPing cl3)"

text \<open>
  \<open>handleHttpRequest\<close> starts the call on the local service (\<open>forwardToLocal\<close>) and awaits
  it; \<open>local_call_done\<close> is its continuation, with the response of the local service or
  the message of the error. In a call, \<open>lc_port\<close> and \<open>lc_internal_auth\<close> are the \<open>host\<close> and
  \<open>x-cluster-internal-auth\<close> headers of the options, which replace forwarded headers of
  these names.
\<close>

definition forwardToLocal ::
  "TunnelClient \<Rightarrow> string option \<Rightarrow> string option \<Rightarrow> string option \<Rightarrow> string js_object option
     \<Rightarrow> string option \<Rightarrow> local_call" where
  "forwardToLocal cl requestId method path headers body =
     \<lparr> lc_requestId = requestId, lc_method = method, lc_path = path,
       lc_headers = (case headers of
                       None \<Rightarrow> []
                     | Some hs \<Rightarrow> delete_prop (delete_prop hs ''host'') ''x-cluster-internal-auth''),
       lc_port = localPort cl, lc_internal_auth = client_secret cl,
       lc_body = (if truthy body then body else None) \<rparr>"

definition handleHttpRequest :: "TunnelClient \<Rightarrow> message \<Rightarrow> TunnelClient" where
  "handleHttpRequest cl message =
     cl\<lparr>localCalls := localCalls cl
          @ [forwardToLocal cl (m_requestId message) (m_method message) (m_path message)
               (m_headers message) (m_body message)]\<rparr>"

definition local_call_done ::
  "TunnelClient \<Rightarrow> string option \<Rightarrow> string + http_result \<Rightarrow> TunnelClient" where
  "local_call_done cl requestId result =
     (case result of
        Inr response \<Rightarrow>
          send cl ((msg ''response'')
                     \<lparr> m_requestId := requestId, m_status := r_status response,
                       m_headers := r_headers response, m_body := r_body response \<rparr>)
      | Inl err \<Rightarrow>
          send (client_log (''[TunnelClient] Error forwarding request: '' @ err) cl)
            ((msg ''response'')\<lparr> m_requestId := requestId, m_error := Some err \<rparr>))"

definition handleWsTunnelOpen :: "TunnelClient \<Rightarrow> message \<Rightarrow> string option \<Rightarrow> TunnelClient" where
  "handleWsTunnelOpen cl message dial_error =
     (case dial_error of
        Some err \<Rightarrow>
          send (client_log (''[TunnelClient] Error opening tunnel '' @ str (m_tunnelId message)
                              @ '': '' @ err) cl)
            ((msg ''error'')\<lparr> m_tunnelId := m_tunnelId message, m_error := Some err \<rparr>)
      | None \<Rightarrow>
          (let wsPath = (if m_channel message = Some ''shell'' then ''/shell'' else ''/ws'');
               localWs = nextLocal cl
           in cl\<lparr>nextLocal := Suc (nextLocal cl),
                 localSockets := Map_set (localSockets cl) localWs
                   \<lparr> readyState = CONNECTING, closeCode = None, outbox = [] \<rparr>,
                 localDials := Map_set (localDials cl) localWs
                   \<lparr> ld_tunnelId = m_tunnelId message, ld_channel = m_channel message,
                     ld_wsPath = wsPath,
                     ld_token = (if truthy (m_token message) then m_token message else None) \<rparr>\<rparr>))"

definition handleWsMessage :: "TunnelClient \<Rightarrow> message \<Rightarrow> TunnelClient" where
  "handleWsMessage cl message =
     (case Map_get (localTunnels cl) (m_tunnelId message) of
        None \<Rightarrow> cl
      | Some localWs \<Rightarrow>
          if readyStateOf (localSockets cl) localWs = OPEN
          then cl\<lparr>localSockets := ws_send (localSockets cl) localWs
                                    (case m_data message of None \<Rightarrow> [] | Some d \<Rightarrow> d)\<rparr>
          else cl)"

definition handleWsTunnelClose :: "TunnelClient \<Rightarrow> message \<Rightarrow> TunnelClient" where
  "handleWsTunnelClose cl message =
     (case Map_get (localTunnels cl) (m_tunnelId message) of
        None \<Rightarrow> cl
      | Some localWs \<Rightarrow>
          cl\<lparr>localSockets := ws_close (localSockets cl) localWs None,
             localTunnels := Map_delete (localTunnels cl) (m_tunnelId message)\<rparr>)"

definition handleMessage :: "TunnelClient \<Rightarrow> message \<Rightarrow> string option \<Rightarrow> TunnelClient" where
  "handleMessage cl message dial_error =
     (if m_type message = Some ''auth_success'' then handleAuthSuccess cl message
      else if m_type message = Some ''http_request'' then handleHttpRequest cl message
      else if m_type message = Some ''ws_tunnel_open'' then handleWsTunnelOpen cl message dial_error
      else if m_type message = Some ''ws_message'' then handleWsMessage cl message
      else if m_type message = Some ''ws_tunnel_close'' then handleWsTunnelClose cl message
      else if m_type message = Some ''pong'' then cl
      else client_log (''[TunnelClient] Unknown message type: '' @ str (m_type message)) cl)"

subsection \<open>The listeners of the control socket\<close>

fun cleanup_local :: "(string option \<times> ws_id) list \<Rightarrow> string sockets \<Rightarrow> string sockets" where
  "cleanup_local [] ss = ss"
| "cleanup_local ((tunnelId, w) # entries) ss =
     cleanup_local entries (if readyStateOf ss w = OPEN then ws_close ss w None else ss)"

definition cleanupTunnels :: "TunnelClient \<Rightarrow> TunnelClient" where
  "cleanupTunnels cl =
     cl\<lparr>localSockets := cleanup_local (localTunnels cl) (localSockets cl), localTunnels := []\<rparr>"

definition client_on_open :: "TunnelClient \<Rightarrow> TunnelClient" where
  "client_on_open cl =
     authenticate (client_log ''[TunnelClient] Connected to master, authenticating...'' cl)"

definition client_on_message ::
  "(string \<Rightarrow> message option) \<Rightarrow> TunnelClient \<Rightarrow> string \<Rightarrow> string option \<Rightarrow> TunnelClient" where
  "client_on_message JSON_parse cl d dial_error =
     (case JSON_parse d of
        None \<Rightarrow> client_log ''[TunnelClient] Error parsing message:'' cl
      | Some message \<Rightarrow> handleMessage cl message dial_error)"

definition client_on_close :: "TunnelClient \<Rightarrow> number \<Rightarrow> TunnelClient" where
  "client_on_close cl random =
     (let cl1 = client_log ''[TunnelClient] Disconnected from master'' cl;
          cl2 = cl1\<lparr>authenticated := False\<rparr>;
          cl3 = stopPing cl2;
          cl4 = cleanupTunnels cl3
      in scheduleReconnect cl4 random)"

definition client_on_error :: "TunnelClient \<Rightarrow> TunnelClient" where
  "client_on_error cl = client_log ''[TunnelClient] WebSocket error:'' cl"

definition stop :: "TunnelClient \<Rightarrow> TunnelClient" where
  "stop cl =
     (let cl1 = client_log ''[TunnelClient] Stopping tunnel client'' cl;
          cl2 = (if reconnectTimer cl1 \<noteq> None
                 then cl1\<lparr>reconnectTimer := None, reconnectPending := False\<rparr> else cl1);
          cl3 = stopPing cl2;
          cl4 = cleanupTunnels cl3;
          cl5 = cl4\<lparr>ws := None\<rparr>
      in cl5\<lparr>authenticated := False\<rparr>)"

definition isConnected :: "TunnelClient \<Rightarrow> bool" where
  "isConnected cl =
     (case ws cl of None \<Rightarrow> False | Some sock \<Rightarrow> readyState sock = OPEN \<and> authenticated cl)"

subsection \<open>The listeners of a local WebSocket\<close>

definition local_on_open :: "TunnelClient \<Rightarrow> ws_id \<Rightarrow> TunnelClient" where
  "local_on_open cl localWs =
     (case Map_get (localDials cl) localWs of
        None \<Rightarrow> cl
      | Some dial \<Rightarrow>
          (let cl1 = client_log (''[TunnelClient] Local WebSocket tunnel opened: ''
                                   @ str (ld_tunnelId dial)) cl
           in cl1\<lparr>localTunnels := Map_set (localTunnels cl1) (ld_tunnelId dial) localWs\<rparr>))"

definition local_on_message :: "TunnelClient \<Rightarrow> ws_id \<Rightarrow> string \<Rightarrow> TunnelClient" where
  "local_on_message cl localWs d =
     (case Map_get (localDials cl) localWs of
        None \<Rightarrow> cl
      | Some dial \<Rightarrow>
          send cl ((msg ''ws_data'')\<lparr> m_tunnelId := ld_tunnelId dial, m_data := Some d \<rparr>))"

definition local_on_close :: "TunnelClient \<Rightarrow> ws_id \<Rightarrow> TunnelClient" where
  "local_on_close cl localWs =
     (case Map_get (localDials cl) localWs of
        None \<Rightarrow> cl
      | Some dial \<Rightarrow>
          (let cl1 = client_log (''[TunnelClient] Local WebSocket tunnel closed: ''
                                   @ str (ld_tunnelId dial)) cl;
               cl2 = cl1\<lparr>localTunnels := Map_delete (localTunnels cl1) (ld_tunnelId dial)\<rparr>
           in send cl2 ((msg ''ws_tunnel_closed'')\<lparr> m_tunnelId := ld_tunnelId dial \<rparr>)))"

subsection \<open>The events of the slave\<close>

text \<open>
  One step of the slave is one event of the runtime followed by the listener the code
  installed for it. The control socket is \<open>OPEN\<close> when it emits \<open>open\<close> and \<open>CLOSED\<close> when it
  emits \<open>close\<close>, and so is a local WebSocket; the reconnect timer fires once.
\<close>

definition set_open :: "'f sockets \<Rightarrow> ws_id \<Rightarrow> 'f sockets" where
  "set_open ss w =
     (case Map_get ss w of None \<Rightarrow> ss | Some s \<Rightarrow> Map_set ss w (s\<lparr>readyState := OPEN\<rparr>))"

definition control_state :: "TunnelClient \<Rightarrow> readyState \<Rightarrow> TunnelClient" where
  "control_state cl rs =
     (case ws cl of None \<Rightarrow> cl | Some sock \<Rightarrow> cl\<lparr>ws := Some (sock\<lparr>readyState := rs\<rparr>)\<rparr>)"

datatype client_event =
    Start "string option" number
  | ReconnectTimer "string option" number
  | SocketOpen
  | SocketMessage string "string option"
  | SocketClose number
  | SocketError
  | PingTick int
  | LocalCallDone "string option" "string + http_result"
  | LocalOpen ws_id
  | LocalMessage ws_id string
  | LocalClose ws_id
  | Stop

fun client_step ::
  "(string \<Rightarrow> message option) \<Rightarrow> TunnelClient \<Rightarrow> client_event \<Rightarrow> TunnelClient" where
  "client_step JSON_parse cl (Start dial_error random) = start cl dial_error random"
| "client_step JSON_parse cl (ReconnectTimer dial_error random) =
     (if reconnectPending cl then connect (cl\<lparr>reconnectPending := False\<rparr>) dial_error random
      else cl)"
| "client_step JSON_parse cl SocketOpen = client_on_open (control_state cl OPEN)"
| "client_step JSON_parse cl (SocketMessage d dial_error) =
     client_on_message JSON_parse cl d dial_error"
| "client_step JSON_parse cl (SocketClose random) =
     client_on_close (control_state cl CLOSED) random"
| "client_step JSON_parse cl SocketError = client_on_error cl"
| "client_step JSON_parse cl (PingTick now) = ping_tick cl now"
| "client_step JSON_parse cl (LocalCallDone requestId result) =
     local_call_done cl requestId result"
| "client_step JSON_parse cl (LocalOpen w) =
     local_on_open (cl\<lparr>localSockets := set_open (localSockets cl) w\<rparr>) w"
| "client_step JSON_parse cl (LocalMessage w d) = local_on_message cl w d"
| "client_step JSON_parse cl (LocalClose w) =
     local_on_close (cl\<lparr>localSockets := set_closed (localSockets cl) w\<rparr>) w"
| "client_step JSON_parse cl Stop = stop cl"

section \<open>Predicates of the properties\<close>

text \<open>The header names that \<open>sanitizeHeaders\<close> deletes.\<close>

definition hop_by_hop :: "string list" where
  "hop_by_hop =
     [''connection'', ''keep-alive'', ''proxy-authenticate'', ''proxy-authorization'', ''te'',
      ''trailers'', ''transfer-encoding'', ''upgrade'', ''x-target-slave'']"

text \<open>
  A header map names a header when one of its keys is that name in some letter case
  (HTTP header names are case-insensitive).
\<close>

definition names_header :: "'v js_object \<Rightarrow> string \<Rightarrow> bool" where
  "names_header obj name = (name \<in> set (map (\<lambda>e. toLowerCase (fst e)) obj))"

text \<open>
  The HTTP server gives the middleware, and so \<open>forwardHttpRequest\<close>, a header map whose
  keys are lower-case, whatever the letter case of the names the user sent. An event comes
  from the HTTP server when it is no call of \<open>forwardHttpRequest\<close>, or the call's request
  has such a header map.
\<close>

definition lower_case_keys :: "'v js_object \<Rightarrow> bool" where
  "lower_case_keys obj = list_all (\<lambda>e. toLowerCase (fst e) = fst e) obj"

text \<open>
  A frame is sanitized when it is no \<open>http_request\<close>, or its header map names none of the
  headers of \<open>hop_by_hop\<close>, in any letter case; a socket store is sanitized when every
  frame written to every socket is.
\<close>

definition frame_sanitized :: "message \<Rightarrow> bool" where
  "frame_sanitized f =
     (m_type f = Some ''http_request'' \<longrightarrow>
        (case m_headers f of
           None \<Rightarrow> True
         | Some hs \<Rightarrow> list_all (\<lambda>name. \<not> names_header hs name) hop_by_hop))"

definition frames_sanitized :: "message sockets \<Rightarrow> bool" where
  "frames_sanitized ss = list_all (\<lambda>e. list_all frame_sanitized (outbox (snd e))) ss"

definition outbox_of :: "'f sockets \<Rightarrow> ws_id \<Rightarrow> 'f list" where
  "outbox_of ss w = (case Map_get ss w of None \<Rightarrow> [] | Some s \<Rightarrow> outbox s)"

definition from_http_server :: "event \<Rightarrow> bool" where
  "from_http_server ev =
     (case ev of
        Forward slaveId request requestId \<Rightarrow> lower_case_keys (q_headers request)
      | _ \<Rightarrow> True)"

text \<open>The \<open>http_request\<close> frame that \<open>forwardHttpRequest\<close> writes for a request.\<close>

definition http_request_frame :: "request \<Rightarrow> string \<Rightarrow> message" where
  "http_request_frame request requestId =
     (msg ''http_request'')
       \<lparr> m_requestId := Some requestId,
         m_method := Some (q_method request),
         m_path := Some (q_url request),
         m_headers := Some (sanitizeHeaders (q_headers request)),
         m_body := (if q_method request \<noteq> ''GET'' \<and> q_method request \<noteq> ''HEAD''
                    then Some (concat (q_chunks request)) else None) \<rparr>"

text \<open>
  The invariant of the master's maps: each holds one entry per key, no slave is registered
  under the empty id, and the owner of every tunnel is registered.
\<close>

definition registry_inv :: "TunnelManager \<Rightarrow> bool" where
  "registry_inv st =
     (distinct (map fst (slaves st)) \<and> distinct (map fst (tunnels st))
      \<and> distinct (map fst (pendingRequests st))
      \<and> \<not> Map_has (slaves st) []
      \<and> list_all (\<lambda>e. Map_has (slaves st) (t_slaveId (snd e))) (tunnels st))"

text \<open>The tunnels of a slave, and whether none of their user-side sockets is open.\<close>

definition tunnels_of :: "TunnelManager \<Rightarrow> string \<Rightarrow> (string \<times> tunnel) list" where
  "tunnels_of st slaveId = filter (\<lambda>e. t_slaveId (snd e) = slaveId) (tunnels st)"


text \<open>A field of a JSON object.\<close>

definition json_field :: "json \<Rightarrow> string \<Rightarrow> json option" where
  "json_field j k = (case j of JObject props \<Rightarrow> map_of props k | _ \<Rightarrow> None)"

definition reply_json :: "http_reply \<Rightarrow> json" where
  "reply_json r = (case y_body r of JsonBody j \<Rightarrow> j | SendBody b \<Rightarrow> JNull)"

section \<open>Example inputs\<close>

text \<open>
  A parser that knows the frames of the examples, a master with the secret \<open>k\<close>, the same
  master after the slave \<open>s1\<close> has authenticated on socket 1, and a slave with the default
  configuration.
\<close>

definition example_parse :: "string \<Rightarrow> message option" where
  "example_parse d =
     (if d = ''auth s1''
      then Some ((msg ''auth'')\<lparr>m_slaveId := Some ''s1'', m_secret := Some ''k''\<rparr>)
      else if d = ''response r1''
      then Some ((msg ''response'')\<lparr>m_requestId := Some ''r1'', m_status := Some 200,
                                     m_headers := Some [], m_body := Some ''ok''\<rparr>)
      else if d = ''auth_success s1''
      then Some ((msg ''auth_success'')\<lparr>m_slaveId := Some ''s1''\<rparr>)
      else None)"

definition master0 :: TunnelManager where
  "master0 =
     TunnelManager_new \<lparr> o_secret = Some ''k'', o_authTimeout = None, o_requestTimeout = None \<rparr>
       None"

definition master_s1 :: TunnelManager where
  "master_s1 = run example_parse master0 [Accept 1, Message 1 ''auth s1'' 0, Continuation]"

definition client0 :: TunnelClient where
  "client0 =
     TunnelClient_new
       \<lparr> co_masterUrl = Some ''wss://master.example'', co_slaveId = Some ''s1'',
         co_slaveName = None, co_secret = Some ''k'', co_localPort = None,
         co_baseDelay = None, co_maxDelay = None \<rparr>
       \<lparr> MASTER_URL = None, SLAVE_ID = None, SLAVE_NAME = None, CLUSTER_SECRET = None,
         PORT = None \<rparr>"

definition get_request :: "string \<Rightarrow> string js_object \<Rightarrow> request" where
  "get_request url hs = \<lparr> q_method = ''GET'', q_url = url, q_headers = hs, q_chunks = [] \<rparr>"

text \<open>
  The master with \<open>s1\<close> connected, one tunnel of \<open>s1\<close> to the user-side socket 7 and one
  pending request \<open>r1\<close> to \<open>s1\<close>; and the master after a second connection has
  authenticated as \<open>s1\<close>.
\<close>

definition master_busy :: TunnelManager where
  "master_busy =
     run example_parse master_s1
       [UserAccept 7, CreateTunnel ''s1'' (Some 7) (Some ''ws'') (Some ''T'') ''t1'',
        Forward ''s1'' (get_request ''/api/projects'' []) ''r1'']"

definition master_replaced :: TunnelManager where
  "master_replaced =
     run example_parse master_s1 [Accept 2, Message 2 ''auth s1'' 5, Continuation]"

section \<open>Facts about the containers\<close>

lemma lower_char_idem: "lower_char (lower_char c) = lower_char c"
proof -
  have "of_char (char_of (of_char c + 32 :: nat)) = (of_char c + 32 :: nat)"
    if "of_char c \<le> (90::nat)"
    using that by simp
  then show ?thesis
    by (auto simp: lower_char_def Let_def)
qed

lemma toLowerCase_idem: "toLowerCase (toLowerCase s) = toLowerCase s"
  by (simp add: toLowerCase_def lower_char_idem)

lemma Map_get_set: "Map_get (Map_set m k v) k' = (if k' = k then Some v else Map_get m k')"
  by (induction m) (auto simp: Map_get_def)

lemma Map_get_delete: "Map_get (Map_delete m k) k' = (if k' = k then None else Map_get m k')"
  by (induction m) (auto simp: Map_get_def Map_delete_def)


lemma map_of_delete_prop:
  "map_of (delete_prop obj k) k' = (if k' = k then None else map_of obj k')"
  by (induction obj) (auto simp: delete_prop_def)

lemma map_of_sanitizeHeaders:
  "map_of (sanitizeHeaders h) k = (if k \<in> set hop_by_hop then None else map_of h k)"
  by (simp add: sanitizeHeaders_def hop_by_hop_def map_of_delete_prop)

section \<open>The slave's send while disconnected\<close>

text \<open>
  Claim C10. When the slave's control socket is absent or not \<open>OPEN\<close>, \<open>send\<close> returns the
  client state as it was: nothing is written, nothing is queued, no field changes. So the
  \<open>response\<close> of a finished local call, the \<open>ws_data\<close> of a local WebSocket and the
  \<open>ws_tunnel_closed\<close> of a closing one are lost: the continuations that produce them leave
  the control socket untouched.
\<close>

theorem send_discards_when_not_open:
  assumes "ws cl = None \<or> (\<exists>sock. ws cl = Some sock \<and> readyState sock \<noteq> OPEN)"
  shows "send cl message = cl
         \<and> local_call_done cl requestId (Inr response) = cl
         \<and> local_on_message cl localWs d = cl
         \<and> ws (local_on_close cl localWs) = ws cl
         \<and> ws (local_call_done cl requestId (Inl err)) = ws cl"
proof -
  have s: "send c m = c" if "ws c = ws cl" for c m
    using assms that by (auto simp: send_def)
  have "ws (client_log x cl) = ws cl" for x
    by (simp add: client_log_def)
  then show ?thesis
    using s by (auto simp: local_call_done_def local_on_message_def local_on_close_def
        client_log_def split: option.splits)
qed

lemmas client_evals = client0_def TunnelClient_new_def opt_or_def number_or_def nat_or_def truthy_def
  send_def msg_def client_log_def

theorem send_discards_witness:
  "send (client0\<lparr>ws := Some \<lparr> readyState = CLOSING, closeCode = None, outbox = [] \<rparr>\<rparr>)
        ((msg ''response'')\<lparr>m_requestId := Some ''r1''\<rparr>)
   = client0\<lparr>ws := Some \<lparr> readyState = CLOSING, closeCode = None, outbox = [] \<rparr>\<rparr>
   \<and> send client0 (msg ''ws_data'') = client0"
  using send_discards_when_not_open
          [of "client0\<lparr>ws := Some \<lparr> readyState = CLOSING, closeCode = None, outbox = [] \<rparr>\<rparr>"
              "(msg ''response'')\<lparr>m_requestId := Some ''r1''\<rparr>"]
        send_discards_when_not_open [of client0 "msg ''ws_data''"]
  by (simp add: client_evals)

section \<open>Malformed frames\<close>

text \<open>
  Claim C7. When \<open>JSON.parse\<close> throws on a frame of a control connection, the master's
  message handler writes one line to the console and changes nothing else: the socket keeps
  its state, and the connection's variables, the registry, the pending requests and the
  tunnels are as before. The slave's message handler does the same with a frame of the
  master.
\<close>

theorem malformed_frame_logged_and_dropped:
  assumes "JSON_parse d = None" and "Map_get (connections st) w = Some c"
  shows "on_message JSON_parse now st w d = console_log ''[TunnelManager] Error parsing message:'' st
         \<and> readyStateOf (sockets (on_message JSON_parse now st w d)) w = readyStateOf (sockets st) w
         \<and> connections (on_message JSON_parse now st w d) = connections st
         \<and> slaves (on_message JSON_parse now st w d) = slaves st
         \<and> pendingRequests (on_message JSON_parse now st w d) = pendingRequests st
         \<and> tunnels (on_message JSON_parse now st w d) = tunnels st
         \<and> client_on_message JSON_parse cl d dial_error
             = client_log ''[TunnelClient] Error parsing message:'' cl
         \<and> ws (client_on_message JSON_parse cl d dial_error) = ws cl"
  using assms by (simp add: on_message_def client_on_message_def console_log_def client_log_def)


lemmas master_evals = master0_def TunnelManager_new_def example_parse_def handleConnection_def
  on_message_def handleAuth_def on_close_def Map_get_def Map_has_def Map_delete_def
  console_log_def readyStateOf_def fresh_socket_def truthy_def nat_or_def msg_def
  clearAuthTimer_def send_control_def close_control_def ws_send_def ws_close_def set_closed_def
  or_else_def str_def run_continuation_def auth_settled_def Map_set.simps

lemma master_s1_eq:
  "master_s1 =
     \<lparr> secret = Some ''k'', authTimeout = 10000, requestTimeout = 30000,
       slaves = [(''s1'', \<lparr> s_ws = 1, s_name = ''s1'', s_connectedAt = 0, s_lastPing = 0,
                            s_authenticated = True \<rparr>)],
       pendingRequests = [], tunnels = [],
       connections = [(1, \<lparr> c_authenticated = True, c_slaveId = Some ''s1'',
                             c_authTimer = False \<rparr>)],
       sockets = [(1, \<lparr> readyState = OPEN, closeCode = None,
                         outbox = [(msg ''auth_success'')\<lparr>m_slaveId := Some ''s1''\<rparr>] \<rparr>)],
       userSockets = [], userListeners = [], timers = [], promises = [], nextHandle = 0,
       console = [''[TunnelManager] New connection attempt'',
                  ''[TunnelManager] Slave authenticated: s1 (s1)''],
       continuations = [] \<rparr>"
  by (simp add: master_s1_def master_evals)

theorem malformed_frame_witness:
  "example_parse ''{'' = None
   \<and> Map_get (connections master_s1) 1
       = Some \<lparr> c_authenticated = True, c_slaveId = Some ''s1'', c_authTimer = False \<rparr>
   \<and> on_message example_parse 7 master_s1 1 ''{''
       = console_log ''[TunnelManager] Error parsing message:'' master_s1
   \<and> readyStateOf (sockets (on_message example_parse 7 master_s1 1 ''{'')) 1 = OPEN
   \<and> client_on_message example_parse client0 ''{'' None
       = client_log ''[TunnelClient] Error parsing message:'' client0"
proof -
  have h1: "example_parse ''{'' = None"
    by (simp add: example_parse_def)
  have h2: "Map_get (connections master_s1) 1
              = Some \<lparr> c_authenticated = True, c_slaveId = Some ''s1'', c_authTimer = False \<rparr>"
    by (simp add: master_s1_eq Map_get_def)
  have h3: "readyStateOf (sockets master_s1) 1 = OPEN"
    by (simp add: master_s1_eq readyStateOf_def Map_get_def)
  show ?thesis
    using malformed_frame_logged_and_dropped
            [where JSON_parse = example_parse and d = "''{''" and st = master_s1 and w = 1
               and now = 7 and cl = client0 and dial_error = None, OF h1 h2]
          h1 h2 h3
    by (simp add: console_log_def)
qed

section \<open>Properties of the routing middleware\<close>

lemma isSlaveConnected_console_log [simp]:
  "isSlaveConnected (console_log line st) slaveId = isSlaveConnected st slaveId"
  by (simp add: isSlaveConnected_def console_log_def split: option.splits)

lemma createRequestRouter_Next:
  "(snd (createRequestRouter st url req rid) = Next)
     = (\<not> truthy (map_of (q_headers req) ''x-target-slave'')
        \<or> map_of (q_headers req) ''x-target-slave'' = Some ''local'')"
  by (simp add: createRequestRouter_def Let_def split: prod.splits)

lemma createRequestRouter_local_state:
  "\<not> truthy (map_of (q_headers req) ''x-target-slave'')
     \<or> map_of (q_headers req) ''x-target-slave'' = Some ''local''
   \<Longrightarrow> (fst (createRequestRouter st url req rid))\<lparr>console := console st\<rparr> = st"
  by (auto simp: createRequestRouter_def Let_def console_log_def)

text \<open>
  Claim C6. A request whose \<open>x-target-slave\<close> header is absent or \<open>local\<close> goes to the local
  handler chain (\<open>next()\<close>), and the middleware changes nothing but, for an onboarding URL,
  the console. A request that names a slave which is not connected is answered 503 with
  the JSON body \<open>{error: "Slave not connected", slaveId, message}\<close>. When the promise of
  \<open>forwardHttpRequest\<close> is rejected, the reply is 502 with the JSON body
  \<open>{error: "Tunnel error", slaveId, message}\<close>.
\<close>

theorem router_local_503_502:
  "(map_of (q_headers req) ''x-target-slave'' = None
      \<or> map_of (q_headers req) ''x-target-slave'' = Some ''local''
    \<longrightarrow> snd (createRequestRouter st url req rid) = Next
        \<and> (fst (createRequestRouter st url req rid))\<lparr>console := console st\<rparr> = st)
   \<and> (map_of (q_headers req) ''x-target-slave'' = Some target \<and> target \<noteq> []
        \<and> target \<noteq> ''local'' \<and> \<not> isSlaveConnected st target
    \<longrightarrow> snd (createRequestRouter st url req rid)
          = Replied \<lparr> y_status = 503, y_headers = [],
                      y_body = JsonBody (JObject
                        [(''error'', JString ''Slave not connected''),
                         (''slaveId'', JString target),
                         (''message'', JString (''The target client '' @ [CHR 0x27] @ target
                                                 @ [CHR 0x27] @ '' is not currently connected''))]) \<rparr>)
   \<and> snd (router_continue JSON_parse headers_error status_error st target (Rejected message))
       = \<lparr> y_status = 502, y_headers = [],
           y_body = JsonBody (JObject
             [(''error'', JString ''Tunnel error''),
              (''slaveId'', JString target),
              (''message'', JString message)]) \<rparr>"
proof -
  have a: "map_of (q_headers req) ''x-target-slave'' = None
             \<or> map_of (q_headers req) ''x-target-slave'' = Some ''local''
           \<Longrightarrow> snd (createRequestRouter st url req rid) = Next
               \<and> (fst (createRequestRouter st url req rid))\<lparr>console := console st\<rparr> = st"
    using createRequestRouter_local_state [of req st url rid]
    by (auto simp: createRequestRouter_Next truthy_def)
  have b: "map_of (q_headers req) ''x-target-slave'' = Some target \<Longrightarrow> target \<noteq> []
           \<Longrightarrow> target \<noteq> ''local'' \<Longrightarrow> \<not> isSlaveConnected st target
           \<Longrightarrow> snd (createRequestRouter st url req rid)
          = Replied \<lparr> y_status = 503, y_headers = [],
                      y_body = JsonBody (JObject
                        [(''error'', JString ''Slave not connected''),
                         (''slaveId'', JString target),
                         (''message'', JString (''The target client '' @ [CHR 0x27] @ target
                                                 @ [CHR 0x27] @ '' is not currently connected''))]) \<rparr>"
    by (simp add: createRequestRouter_def Let_def truthy_def str_def)
  have c: "snd (router_continue JSON_parse headers_error status_error st target (Rejected message))
       = \<lparr> y_status = 502, y_headers = [],
           y_body = JsonBody (JObject
             [(''error'', JString ''Tunnel error''),
              (''slaveId'', JString target),
              (''message'', JString message)]) \<rparr>"
    by (simp add: router_continue_def tunnel_error_def)
  from a b c show ?thesis by blast
qed

lemma master_s1_connected:
  "isSlaveConnected master_s1 ''s1''" "\<not> isSlaveConnected master_s1 ''s2''"
  by (simp_all add: master_s1_eq isSlaveConnected_def Map_get_def readyStateOf_def)

theorem router_witness:
  "snd (createRequestRouter master_s1 ''/api/projects'' (get_request ''/api/projects'' []) ''r1'') = Next
   \<and> snd (createRequestRouter master_s1 ''/api/projects''
            (get_request ''/api/projects'' [(''x-target-slave'', ''local'')]) ''r1'') = Next
   \<and> snd (createRequestRouter master_s1 ''/api/projects''
            (get_request ''/api/projects'' [(''x-target-slave'', ''s2'')]) ''r1'')
       = Replied \<lparr> y_status = 503, y_headers = [],
                   y_body = JsonBody (JObject
                     [(''error'', JString ''Slave not connected''),
                      (''slaveId'', JString ''s2''),
                      (''message'', JString (''The target client '' @ [CHR 0x27] @ ''s2''
                                              @ [CHR 0x27] @ '' is not currently connected''))]) \<rparr>
   \<and> snd (router_continue (\<lambda>b. None) ''no headers'' ''no status'' master_s1 ''s1''
            (Rejected ''Request timeout''))
       = \<lparr> y_status = 502, y_headers = [],
           y_body = JsonBody (JObject
             [(''error'', JString ''Tunnel error''),
              (''slaveId'', JString ''s1''),
              (''message'', JString ''Request timeout'')]) \<rparr>"
  using router_local_503_502
          [of "get_request ''/api/projects'' []" master_s1 "''/api/projects''" "''r1''" "''s2''"
              "\<lambda>b. None" "''no headers''" "''no status''" "''Request timeout''"]
        router_local_503_502
          [of "get_request ''/api/projects'' [(''x-target-slave'', ''local'')]" master_s1
              "''/api/projects''" "''r1''" "''s1''"
              "\<lambda>b. None" "''no headers''" "''no status''" "''Request timeout''"]
        router_local_503_502
          [of "get_request ''/api/projects'' [(''x-target-slave'', ''s2'')]" master_s1
              "''/api/projects''" "''r1''" "''s2''"
              "\<lambda>b. None" "''no headers''" "''no status''" "''Request timeout''"]
        master_s1_connected
  by (simp add: get_request_def)

lemma map_of_Map_set: "map_of (Map_set m k v) k' = (if k' = k then Some v else map_of m k')"
  using Map_get_set [of m k v k'] by (simp add: Map_get_def)

lemma map_of_fold_Map_set:
  "k \<notin> fst ` set xs
     \<Longrightarrow> map_of (fold (\<lambda>e acc. Map_set acc (fst e) (snd e)) xs acc) k = map_of acc k"
  by (induction xs arbitrary: acc) (auto simp: map_of_Map_set)

lemma outbox_of_ws_send:
  "readyStateOf ss w = OPEN \<Longrightarrow> outbox_of (ws_send ss w f) w = outbox_of ss w @ [f]"
  by (auto simp: readyStateOf_def ws_send_def outbox_of_def Map_get_set split: option.splits)

lemma forwardHttpRequest_connected:
  assumes "Map_get (slaves st) slaveId = Some slave"
    and "readyStateOf (sockets st) (s_ws slave) = OPEN"
  shows "snd (forwardHttpRequest st slaveId request requestId) = nextHandle st"
    and "sockets (fst (forwardHttpRequest st slaveId request requestId))
           = ws_send (sockets st) (s_ws slave) (http_request_frame request requestId)"
    and "Map_get (pendingRequests (fst (forwardHttpRequest st slaveId request requestId))) requestId
           = Some \<lparr> p_promise = nextHandle st, p_timeout = nextHandle st \<rparr>"
  using assms
  by (simp_all add: forwardHttpRequest_def Let_def send_control_def http_request_frame_def
      Map_get_set)

lemma createRequestRouter_forwards:
  assumes "map_of (q_headers req) ''x-target-slave'' = Some target"
    and "target \<noteq> []" and "target \<noteq> ''local''"
    and "Map_get (slaves st) target = Some slave"
    and "readyStateOf (sockets st) (s_ws slave) = OPEN"
  shows "snd (createRequestRouter st url req rid) = Awaiting target (nextHandle st)"
    and "outbox_of (sockets (fst (createRequestRouter st url req rid))) (s_ws slave)
           = outbox_of (sockets st) (s_ws slave) @ [http_request_frame req rid]"
    and "Map_get (pendingRequests (fst (createRequestRouter st url req rid))) rid
           = Some \<lparr> p_promise = nextHandle st, p_timeout = nextHandle st \<rparr>"
proof -
  define st0 where "st0 = (if includes_str url ''onboarding''
                 then console_log (''[RequestRouter] Onboarding request: '' @ q_method req @ '' ''
                                     @ url @ '' target: '' @ or_else (Some target) ''local'') st
                 else st)"
  have same: "slaves st0 = slaves st" "sockets st0 = sockets st" "nextHandle st0 = nextHandle st"
    by (simp_all add: st0_def console_log_def)
  have conn: "isSlaveConnected st0 target"
    using assms(4,5) by (simp add: isSlaveConnected_def same)
  have r: "createRequestRouter st url req rid
             = (fst (forwardHttpRequest st0 target req rid),
                Awaiting target (snd (forwardHttpRequest st0 target req rid)))"
    using assms(1,2,3) conn
    by (simp add: createRequestRouter_def Let_def st0_def truthy_def str_def split: prod.splits)
  have c: "Map_get (slaves st0) target = Some slave" "readyStateOf (sockets st0) (s_ws slave) = OPEN"
    using assms(4,5) by (simp_all add: same)
  show "snd (createRequestRouter st url req rid) = Awaiting target (nextHandle st)"
    by (simp add: r forwardHttpRequest_connected(1) [OF c] same)
  show "outbox_of (sockets (fst (createRequestRouter st url req rid))) (s_ws slave)
           = outbox_of (sockets st) (s_ws slave) @ [http_request_frame req rid]"
    using assms(5) by (simp add: r forwardHttpRequest_connected(2) [OF c] same outbox_of_ws_send)
  show "Map_get (pendingRequests (fst (createRequestRouter st url req rid))) rid
           = Some \<lparr> p_promise = nextHandle st, p_timeout = nextHandle st \<rparr>"
    by (simp add: r forwardHttpRequest_connected(3) [OF c] same)
qed

text \<open>
  Claim C8, as the code has it. The middleware looks at the \<open>x-target-slave\<close> header only,
  whatever the path: it calls \<open>next()\<close> exactly when the header is absent, empty or \<open>local\<close>;
  and when the header names a slave whose record is in the registry with an open socket,
  it forwards the request: it returns to wait for the promise of \<open>forwardHttpRequest\<close>, one
  \<open>http_request\<close> frame for the request is written to the control socket of that slave, and
  the request is pending. The exemption of the cluster endpoints is made in the browser:
  \<open>authenticatedFetch\<close> adds no \<open>X-Target-Slave\<close> header to a URL that begins with
  \<open>/api/cluster/\<close>.
\<close>

theorem router_has_no_path_exemption:
  "(snd (createRequestRouter st url req rid) = Next)
     = (\<not> truthy (map_of (q_headers req) ''x-target-slave'')
        \<or> map_of (q_headers req) ''x-target-slave'' = Some ''local'')
   \<and> (map_of (q_headers req) ''x-target-slave'' = Some target \<and> target \<noteq> []
        \<and> target \<noteq> ''local'' \<and> Map_get (slaves st) target = Some slave
        \<and> readyStateOf (sockets st) (s_ws slave) = OPEN
      \<longrightarrow> snd (createRequestRouter st url req rid) = Awaiting target (nextHandle st)
          \<and> outbox_of (sockets (fst (createRequestRouter st url req rid))) (s_ws slave)
              = outbox_of (sockets st) (s_ws slave) @ [http_request_frame req rid]
          \<and> Map_get (pendingRequests (fst (createRequestRouter st url req rid))) rid
              = Some \<lparr> p_promise = nextHandle st, p_timeout = nextHandle st \<rparr>)
   \<and> (startsWith url ''/api/cluster/'' \<and> ''X-Target-Slave'' \<notin> fst ` set options_headers
      \<longrightarrow> map_of (authenticatedFetch_headers isPlatform token selected body_is_FormData
                     options_headers url) ''X-Target-Slave'' = None)"
  using createRequestRouter_forwards [of req target st slave url rid]
  by (simp add: createRequestRouter_Next authenticatedFetch_headers_def map_of_fold_Map_set
      map_of_Map_set Let_def)

lemmas router_evals = createRequestRouter_def forwardHttpRequest_def get_request_def includes_str.simps
  startsWith.simps truthy_def str_def or_else_def isSlaveConnected_def Map_get_def
  readyStateOf_def send_control_def ws_send_def msg_def sanitizeHeaders_def delete_prop_def
  outbox_of_def Map_set.simps

theorem router_no_path_exemption_witness:
  "startsWith ''/api/cluster/status'' ''/api/cluster/''
   \<and> snd (createRequestRouter master_s1 ''/api/cluster/status''
            (get_request ''/api/cluster/status'' [(''x-target-slave'', ''s1'')]) ''r1'')
       = Awaiting ''s1'' 0
   \<and> outbox_of (sockets (fst (createRequestRouter master_s1 ''/api/cluster/status''
            (get_request ''/api/cluster/status'' [(''x-target-slave'', ''s1'')]) ''r1''))) 1
       = [(msg ''auth_success'')\<lparr>m_slaveId := Some ''s1''\<rparr>,
          http_request_frame
            (get_request ''/api/cluster/status'' [(''x-target-slave'', ''s1'')]) ''r1'']
   \<and> map_of (authenticatedFetch_headers False (Some ''tok'') (Some ''s1'') False []
               ''/api/cluster/status'') ''X-Target-Slave'' = None
   \<and> map_of (authenticatedFetch_headers False (Some ''tok'') (Some ''s1'') False []
               ''/api/projects'') ''X-Target-Slave'' = Some ''s1''"
proof -
  have h: "map_of (q_headers (get_request ''/api/cluster/status'' [(''x-target-slave'', ''s1'')]))
             ''x-target-slave'' = Some ''s1''"
      "Map_get (slaves master_s1) ''s1''
         = Some \<lparr> s_ws = 1, s_name = ''s1'', s_connectedAt = 0, s_lastPing = 0,
                  s_authenticated = True \<rparr>"
      "readyStateOf (sockets master_s1) 1 = OPEN"
      "outbox_of (sockets master_s1) 1 = [(msg ''auth_success'')\<lparr>m_slaveId := Some ''s1''\<rparr>]"
      "nextHandle master_s1 = 0"
    by (simp_all add: get_request_def master_s1_eq Map_get_def readyStateOf_def outbox_of_def)
  have f: "map_of (authenticatedFetch_headers False (Some ''tok'') (Some ''s1'') False []
               ''/api/projects'') ''X-Target-Slave'' = Some ''s1''"
    by (simp add: authenticatedFetch_headers_def getSelectedClientId_def or_else_def truthy_def
        str_def)
  show ?thesis
    using router_has_no_path_exemption
            [where st = master_s1 and url = "''/api/cluster/status''"
               and req = "get_request ''/api/cluster/status'' [(''x-target-slave'', ''s1'')]"
               and rid = "''r1''" and target = "''s1''"
               and slave = "\<lparr> s_ws = 1, s_name = ''s1'', s_connectedAt = 0, s_lastPing = 0,
                                s_authenticated = True \<rparr>"
               and options_headers = "[]" and isPlatform = False and token = "Some ''tok''"
               and selected = "Some ''s1''" and body_is_FormData = False]
          h f
    by simp
qed

text \<open>
  A request for \<open>/api/cluster/status\<close> that carries \<open>x-target-slave: s1\<close>, with \<open>s1\<close>
  connected, is not passed to \<open>next()\<close>: an \<open>http_request\<close> frame for that path is written to
  the control socket of \<open>s1\<close>.
\<close>

theorem cluster_path_is_forwarded_counterexample:
  "startsWith ''/api/cluster/status'' ''/api/cluster/''
   \<and> isSlaveConnected master_s1 ''s1''
   \<and> snd (createRequestRouter master_s1 ''/api/cluster/status''
            (get_request ''/api/cluster/status'' [(''x-target-slave'', ''s1'')]) ''r1'')
       = Awaiting ''s1'' 0
   \<and> snd (createRequestRouter master_s1 ''/api/cluster/status''
            (get_request ''/api/cluster/status'' [(''x-target-slave'', ''s1'')]) ''r1'')
       \<noteq> Next
   \<and> map m_path
        (outbox_of (sockets (fst (createRequestRouter master_s1 ''/api/cluster/status''
            (get_request ''/api/cluster/status'' [(''x-target-slave'', ''s1'')]) ''r1''))) 1)
       = [None, Some ''/api/cluster/status'']"
  by (simp add: master_s1_eq router_evals Let_def)

section \<open>Properties of the cluster status API\<close>

text \<open>
  Claim C9, as the code has it. \<open>GET /status\<close> reports the mode
  \<open>DEPLOYMENT_MODE || 'standalone'\<close>, and \<open>isMaster\<close> from that mode, whether or not there is a
  tunnel manager; without a tunnel manager it reports no slaves. Without a tunnel manager
  the three other endpoints answer 400 with a JSON body whose \<open>error\<close> field is
  \<open>Not in master mode\<close>.
\<close>

theorem cluster_status_mode_and_master_only:
  "y_status (createClusterRoutes toISOString tm DEPLOYMENT_MODE GET_status) = 200
   \<and> json_field (reply_json (createClusterRoutes toISOString tm DEPLOYMENT_MODE GET_status)) ''mode''
       = Some (JString (or_else DEPLOYMENT_MODE ''standalone''))
   \<and> json_field (reply_json (createClusterRoutes toISOString tm DEPLOYMENT_MODE GET_status))
         ''isMaster''
       = Some (JBool (or_else DEPLOYMENT_MODE ''standalone'' = ''master''))
   \<and> createClusterRoutes toISOString None DEPLOYMENT_MODE GET_status
       = ok_json (JObject
           [(''mode'', JString (or_else DEPLOYMENT_MODE ''standalone'')),
            (''isMaster'', JBool (or_else DEPLOYMENT_MODE ''standalone'' = ''master'')),
            (''connectedSlaves'', JNumber 0),
            (''slaves'', JArray [])])
   \<and> or_else None ''standalone'' = ''standalone''
   \<and> or_else (Some []) ''standalone'' = ''standalone''
   \<and> y_status (createClusterRoutes toISOString None DEPLOYMENT_MODE GET_slaves) = 400
   \<and> json_field (reply_json (createClusterRoutes toISOString None DEPLOYMENT_MODE GET_slaves))
         ''error''
       = Some (JString ''Not in master mode'')
   \<and> createClusterRoutes toISOString None DEPLOYMENT_MODE (GET_slave ident)
       = status_json 400 (JObject [(''error'', JString ''Not in master mode'')])
   \<and> createClusterRoutes toISOString None DEPLOYMENT_MODE (GET_slave_health ident)
       = status_json 400 (JObject [(''error'', JString ''Not in master mode'')])"
  by (simp add: createClusterRoutes_def ok_json_def status_json_def json_field_def reply_json_def
      or_else_def Let_def)

theorem cluster_routes_witness:
  "json_field (reply_json (createClusterRoutes (\<lambda>t. ''date'') None None GET_status)) ''mode''
     = Some (JString ''standalone'')
   \<and> json_field (reply_json (createClusterRoutes (\<lambda>t. ''date'') (Some master_s1) (Some ''master'')
                                GET_status)) ''mode''
     = Some (JString ''master'')
   \<and> createClusterRoutes (\<lambda>t. ''date'') None (Some ''slave'') (GET_slave ''s1'')
       = status_json 400 (JObject [(''error'', JString ''Not in master mode'')])"
  using cluster_status_mode_and_master_only
          [where toISOString = "\<lambda>t. ''date''" and DEPLOYMENT_MODE = None and ident = "''s1''"
             and tm = None]
        cluster_status_mode_and_master_only
          [where toISOString = "\<lambda>t. ''date''" and DEPLOYMENT_MODE = "Some ''master''"
             and ident = "''s1''" and tm = "Some master_s1"]
        cluster_status_mode_and_master_only
          [where toISOString = "\<lambda>t. ''date''" and DEPLOYMENT_MODE = "Some ''slave''"
             and ident = "''s1''" and tm = None]
  by (simp add: or_else_def json_field_def reply_json_def ok_json_def)

text \<open>
  With no tunnel manager and \<open>DEPLOYMENT_MODE=slave\<close>, \<open>GET /status\<close> reports the mode \<open>slave\<close>.
\<close>

theorem status_mode_counterexample:
  "createClusterRoutes (\<lambda>t. ''date'') None (Some ''slave'') GET_status
     = ok_json (JObject
         [(''mode'', JString ''slave''),
          (''isMaster'', JBool False),
          (''connectedSlaves'', JNumber 0),
          (''slaves'', JArray [])])
   \<and> JString ''slave'' \<noteq> JString ''standalone''"
  by (simp add: createClusterRoutes_def or_else_def)

section \<open>More facts about the containers\<close>

lemma Map_get_SomeD: "Map_get m k = Some v \<Longrightarrow> (k, v) \<in> set m"
  by (simp add: Map_get_def map_of_SomeD)

lemma set_Map_set: "set (Map_set m k v) \<subseteq> insert (k, v) (set m)"
  by (induction m) (auto split: if_splits)

lemma keys_Map_set:
  "map fst (Map_set m k v) = (if k \<in> fst ` set m then map fst m else map fst m @ [k])"
  by (induction m) (auto simp: rev_image_eqI)

lemma distinct_Map_set: "distinct (map fst m) \<Longrightarrow> distinct (map fst (Map_set m k v))"
  by (simp add: keys_Map_set)





lemma list_all_Map_set: "list_all P m \<Longrightarrow> P (k, v) \<Longrightarrow> list_all P (Map_set m k v)"
  using set_Map_set [of m k v] by (auto simp: list_all_iff)


section \<open>Sanitized frames on every control socket\<close>

lemma frames_sanitized_upd:
  "frames_sanitized ss \<Longrightarrow> list_all frame_sanitized (outbox s) \<Longrightarrow> frames_sanitized (Map_set ss w s)"
  by (simp add: frames_sanitized_def list_all_Map_set)

lemma frames_sanitized_get:
  "frames_sanitized ss \<Longrightarrow> Map_get ss w = Some s \<Longrightarrow> list_all frame_sanitized (outbox s)"
  by (auto simp: frames_sanitized_def list_all_iff dest!: Map_get_SomeD)

lemma frames_sanitized_send:
  "frames_sanitized ss \<Longrightarrow> frame_sanitized f \<Longrightarrow> frames_sanitized (ws_send ss w f)"
  by (auto simp: ws_send_def split: option.splits
      intro!: frames_sanitized_upd dest: frames_sanitized_get)

lemma frames_sanitized_close:
  "frames_sanitized ss \<Longrightarrow> frames_sanitized (ws_close ss w c)"
  by (auto simp: ws_close_def split: option.splits
      intro!: frames_sanitized_upd dest: frames_sanitized_get)

lemma frames_sanitized_set_closed:
  "frames_sanitized ss \<Longrightarrow> frames_sanitized (set_closed ss w)"
  by (auto simp: set_closed_def split: option.splits
      intro!: frames_sanitized_upd dest: frames_sanitized_get)

lemma frames_sanitized_fresh:
  "frames_sanitized ss \<Longrightarrow> frames_sanitized (Map_set ss w fresh_socket)"
  by (rule frames_sanitized_upd) (simp_all add: fresh_socket_def)

lemma frame_sanitized_other:
  "ty \<noteq> ''http_request'' \<Longrightarrow> m_type f = Some ty \<Longrightarrow> frame_sanitized f"
  by (simp add: frame_sanitized_def)

lemma set_sanitizeHeaders:
  "set (sanitizeHeaders h) = {e \<in> set h. fst e \<notin> set hop_by_hop}"
  by (auto simp: sanitizeHeaders_def delete_prop_def hop_by_hop_def)

lemma sanitizeHeaders_names_none:
  assumes "lower_case_keys h" and "name \<in> set hop_by_hop"
  shows "\<not> names_header (sanitizeHeaders h) name"
proof
  assume "names_header (sanitizeHeaders h) name"
  then obtain e where e: "e \<in> set h" "fst e \<notin> set hop_by_hop" "toLowerCase (fst e) = name"
    by (auto simp: names_header_def set_sanitizeHeaders)
  from assms(1) e(1) have "toLowerCase (fst e) = fst e"
    by (simp add: lower_case_keys_def list_all_iff)
  with e assms(2) show False by simp
qed

lemma frame_sanitized_http_request:
  "lower_case_keys h \<Longrightarrow> m_headers f = Some (sanitizeHeaders h) \<Longrightarrow> frame_sanitized f"
  by (simp add: frame_sanitized_def list_all_iff sanitizeHeaders_names_none)

lemma sockets_simps [simp]:
  "sockets (console_log line st) = sockets st"
  "sockets (settle st p out) = sockets st"
  "sockets (clearTimeout st t) = sockets st"
  "sockets (clearAuthTimer st w) = sockets st"
  "sockets (close_control st w code reason) = ws_close (sockets st) w (Some (code, reason))"
  "sockets (send_control st w f) = ws_send (sockets st) w f"
  "sockets (close_localWs st tunnel) = sockets st"
  by (simp_all add: console_log_def settle_def clearTimeout_def clearAuthTimer_def
      close_control_def send_control_def close_localWs_def split: option.splits)

lemma handleAuth_sanitized:
  assumes "frames_sanitized (sockets st)" and "handleAuth now st w message = Inr (st', ident)"
  shows "frames_sanitized (sockets st')"
proof -
  have f: "frame_sanitized ((msg ''auth_success'')\<lparr>m_slaveId := Some x\<rparr>)" for x
    by (rule frame_sanitized_other [of "''auth_success''"]) (simp_all add: msg_def)
  show ?thesis
    using assms f
    by (auto simp: handleAuth_def Let_def frames_sanitized_send frames_sanitized_close
        split: option.splits if_splits)
qed

lemma handleSlaveMessage_sanitized:
  assumes "frames_sanitized (sockets st)"
  shows "frames_sanitized (sockets (handleSlaveMessage now st slaveId message))"
proof -
  have f: "frame_sanitized ((msg ''pong'')\<lparr>m_timestamp := x\<rparr>)" for x
    by (rule frame_sanitized_other [of "''pong''"]) (simp_all add: msg_def)
  show ?thesis
    using assms f
    by (auto simp: handleSlaveMessage_def handleHttpResponse_def handleWsTunnelData_def
        handleWsTunnelClosed_def handlePing_def handleSlaveError_def Let_def
        frames_sanitized_send split: option.splits)
qed

lemma on_message_sanitized:
  assumes "frames_sanitized (sockets st)"
  shows "frames_sanitized (sockets (on_message JSON_parse now st w d))"
  using assms handleAuth_sanitized [of st now w]
  by (auto simp: on_message_def handleSlaveMessage_sanitized frames_sanitized_close
      split: option.splits sum.splits)

lemma cleanup_tunnels_sockets [simp]:
  "sockets (cleanup_tunnels entries slaveId st) = sockets st"
  by (induction entries slaveId st rule: cleanup_tunnels.induct) (simp_all add: Let_def)

lemma forwardHttpRequest_sanitized:
  assumes "frames_sanitized (sockets st)" and "lower_case_keys (q_headers request)"
  shows "frames_sanitized (sockets (fst (forwardHttpRequest st slaveId request requestId)))"
proof -
  have f: "frame_sanitized ((msg ''http_request'')
             \<lparr> m_requestId := a, m_method := b, m_path := c,
               m_headers := Some (sanitizeHeaders (q_headers request)), m_body := e \<rparr>)"
    for a b c e
    by (rule frame_sanitized_http_request [OF assms(2)]) simp
  show ?thesis
    using assms(1) f
    by (auto simp: forwardHttpRequest_def Let_def frames_sanitized_send split: option.splits)
qed

lemma run_continuation_sanitized:
  assumes "frames_sanitized (sockets st)"
  shows "frames_sanitized (sockets (run_continuation st))"
  using assms
  by (auto simp: run_continuation_def auth_settled_def frames_sanitized_close
      split: list.splits sum.splits option.splits)

lemma createWsTunnel_sanitized:
  assumes "frames_sanitized (sockets st)"
  shows "frames_sanitized (sockets (fst (createWsTunnel st slaveId localWs channel token tunnelId)))"
proof -
  have f: "frame_sanitized ((msg ''ws_tunnel_open'')
             \<lparr> m_tunnelId := a, m_channel := b, m_token := c \<rparr>)" for a b c
    by (rule frame_sanitized_other [of "''ws_tunnel_open''"]) (simp_all add: msg_def)
  show ?thesis
    using assms f
    by (auto simp: createWsTunnel_def Let_def frames_sanitized_send split: option.splits)
qed

lemma user_message_listeners_sanitized:
  "frames_sanitized (sockets st)
     \<Longrightarrow> frames_sanitized (sockets (user_message_listeners ls u d st))"
proof (induction ls u d st rule: user_message_listeners.induct)
  case (1 localWs d st)
  then show ?case by simp
next
  case (2 u tunnelId slave_ws ls localWs d st)
  have f: "frame_sanitized ((msg ''ws_message'')\<lparr>m_tunnelId := Some tunnelId, m_data := Some d\<rparr>)"
    by (rule frame_sanitized_other [of "''ws_message''"]) (simp_all add: msg_def)
  from 2 f show ?case
    by (simp add: frames_sanitized_send)
qed

lemma user_close_listeners_sanitized:
  "frames_sanitized (sockets st)
     \<Longrightarrow> frames_sanitized (sockets (user_close_listeners ls u st))"
proof (induction ls u st rule: user_close_listeners.induct)
  case (1 localWs st)
  then show ?case by simp
next
  case (2 u tunnelId slave_ws ls localWs st)
  have f: "frame_sanitized ((msg ''ws_tunnel_close'')\<lparr>m_tunnelId := Some tunnelId\<rparr>)"
    by (rule frame_sanitized_other [of "''ws_tunnel_close''"]) (simp_all add: msg_def)
  from 2 f show ?case
    by (simp add: frames_sanitized_send Let_def)
qed

lemma step_sanitized:
  assumes "frames_sanitized (sockets st)" and "from_http_server ev"
  shows "frames_sanitized (sockets (step JSON_parse st ev))"
proof (cases ev)
  case (Accept w)
  with assms show ?thesis
    by (simp add: handleConnection_def Let_def frames_sanitized_fresh)
next
  case (AuthTimer w)
  with assms show ?thesis
    by (simp add: authTimer_fires_def Let_def frames_sanitized_close split: option.splits)
next
  case (Message w d now)
  with assms show ?thesis by (simp add: on_message_sanitized)
next
  case Continuation
  with assms show ?thesis by (simp add: run_continuation_sanitized)
next
  case (Close w)
  with assms show ?thesis
    by (simp add: on_close_def Let_def frames_sanitized_set_closed split: option.splits)
next
  case (Error w)
  with assms show ?thesis by (simp add: on_error_def)
next
  case (Forward slaveId request requestId)
  with assms show ?thesis by (simp add: forwardHttpRequest_sanitized from_http_server_def)
next
  case (RequestTimer t)
  with assms show ?thesis
    by (simp add: requestTimeout_fires_def Let_def split: option.splits prod.splits)
next
  case (UserAccept u)
  with assms show ?thesis by simp
next
  case (CreateTunnel slaveId localWs channel token tunnelId)
  with assms show ?thesis by (simp add: createWsTunnel_sanitized)
next
  case (UserMessage u d)
  with assms show ?thesis by (simp add: user_on_message_def user_message_listeners_sanitized)
next
  case (UserClose u)
  with assms show ?thesis by (simp add: user_on_close_def user_close_listeners_sanitized)
qed

lemma run_sanitized:
  "frames_sanitized (sockets st) \<Longrightarrow> list_all from_http_server evs
     \<Longrightarrow> frames_sanitized (sockets (run JSON_parse st evs))"
  by (induction evs arbitrary: st) (simp_all add: step_sanitized)

section \<open>The invariant of the master's maps\<close>

lemma registry_fields [simp]:
  "slaves (console_log line st) = slaves st"
  "tunnels (console_log line st) = tunnels st"
  "pendingRequests (console_log line st) = pendingRequests st"
  "slaves (settle st p out) = slaves st"
  "tunnels (settle st p out) = tunnels st"
  "pendingRequests (settle st p out) = pendingRequests st"
  "slaves (clearTimeout st t) = slaves st"
  "tunnels (clearTimeout st t) = tunnels st"
  "pendingRequests (clearTimeout st t) = pendingRequests st"
  "slaves (clearAuthTimer st w) = slaves st"
  "tunnels (clearAuthTimer st w) = tunnels st"
  "pendingRequests (clearAuthTimer st w) = pendingRequests st"
  "slaves (close_control st w code reason) = slaves st"
  "tunnels (close_control st w code reason) = tunnels st"
  "pendingRequests (close_control st w code reason) = pendingRequests st"
  "slaves (send_control st w f) = slaves st"
  "tunnels (send_control st w f) = tunnels st"
  "pendingRequests (send_control st w f) = pendingRequests st"
  "slaves (close_localWs st tunnel) = slaves st"
  "tunnels (close_localWs st tunnel) = tunnels st"
  "pendingRequests (close_localWs st tunnel) = pendingRequests st"
  by (simp_all add: console_log_def settle_def clearTimeout_def clearAuthTimer_def
      close_control_def send_control_def close_localWs_def split: option.splits)

lemma registry_inv_helpers [simp]:
  "registry_inv (console_log line st) = registry_inv st"
  "registry_inv (settle st p out) = registry_inv st"
  "registry_inv (clearTimeout st t) = registry_inv st"
  "registry_inv (clearAuthTimer st w) = registry_inv st"
  "registry_inv (close_control st w code reason) = registry_inv st"
  "registry_inv (send_control st w f) = registry_inv st"
  "registry_inv (close_localWs st tunnel) = registry_inv st"
  by (simp_all add: registry_inv_def)

lemma registry_inv_updates [simp]:
  "registry_inv (st\<lparr>connections := a\<rparr>) = registry_inv st"
  "registry_inv (st\<lparr>sockets := b\<rparr>) = registry_inv st"
  "registry_inv (st\<lparr>userSockets := c\<rparr>) = registry_inv st"
  "registry_inv (st\<lparr>userListeners := d\<rparr>) = registry_inv st"
  "registry_inv (st\<lparr>timers := e\<rparr>) = registry_inv st"
  "registry_inv (st\<lparr>promises := f\<rparr>) = registry_inv st"
  "registry_inv (st\<lparr>nextHandle := g\<rparr>) = registry_inv st"
  "registry_inv (st\<lparr>console := h\<rparr>) = registry_inv st"
  "registry_inv (st\<lparr>continuations := i\<rparr>) = registry_inv st"
  by (simp_all add: registry_inv_def)


lemma inv_pending_set:
  "registry_inv st \<Longrightarrow> registry_inv (st\<lparr>pendingRequests := Map_set (pendingRequests st) k v\<rparr>)"
  by (simp add: registry_inv_def distinct_Map_set)












subsection \<open>The loop of the close handler\<close>

lemma cleanup_tunnels_fields [simp]:
  "slaves (cleanup_tunnels entries slaveId st) = slaves st"
  "pendingRequests (cleanup_tunnels entries slaveId st) = pendingRequests st"
  "timers (cleanup_tunnels entries slaveId st) = timers st"
  "promises (cleanup_tunnels entries slaveId st) = promises st"
  by (induction entries slaveId st rule: cleanup_tunnels.induct) (simp_all add: Let_def close_localWs_def split: option.splits)

















section \<open>The example states\<close>

lemmas step_evals = master_evals createWsTunnel_def forwardHttpRequest_def get_request_def
  sanitizeHeaders_def delete_prop_def settle_def requestTimeout_fires_def clearTimeout_def
  close_localWs_def handleSlaveMessage_def handleHttpResponse_def Let_def

lemma master_busy_eq:
  "master_busy =
     \<lparr> secret = Some ''k'', authTimeout = 10000, requestTimeout = 30000,
       slaves = [(''s1'', \<lparr> s_ws = 1, s_name = ''s1'', s_connectedAt = 0, s_lastPing = 0,
                            s_authenticated = True \<rparr>)],
       pendingRequests = [(''r1'', \<lparr> p_promise = 0, p_timeout = 0 \<rparr>)],
       tunnels = [(''t1'', \<lparr> t_slaveId = ''s1'', t_localWs = Some 7, t_channel = Some ''ws'' \<rparr>)],
       connections = [(1, \<lparr> c_authenticated = True, c_slaveId = Some ''s1'',
                             c_authTimer = False \<rparr>)],
       sockets = [(1, \<lparr> readyState = OPEN, closeCode = None,
                         outbox = [(msg ''auth_success'')\<lparr>m_slaveId := Some ''s1''\<rparr>,
                                   (msg ''ws_tunnel_open'')
                                     \<lparr>m_tunnelId := Some ''t1'', m_channel := Some ''ws'',
                                      m_token := Some ''T''\<rparr>,
                                   (msg ''http_request'')
                                     \<lparr>m_requestId := Some ''r1'', m_method := Some ''GET'',
                                      m_path := Some ''/api/projects'', m_headers := Some []\<rparr>] \<rparr>)],
       userSockets = [(7, \<lparr> readyState = OPEN, closeCode = None, outbox = [] \<rparr>)],
       userListeners = [(7, ''t1'', 1)], timers = [(0, ''r1'', 0)], promises = [],
       nextHandle = 1,
       console = [''[TunnelManager] New connection attempt'',
                  ''[TunnelManager] Slave authenticated: s1 (s1)''],
       continuations = [] \<rparr>"
  by (simp add: master_busy_def master_s1_eq step_evals)

lemma master_replaced_eq:
  "master_replaced =
     \<lparr> secret = Some ''k'', authTimeout = 10000, requestTimeout = 30000,
       slaves = [(''s1'', \<lparr> s_ws = 2, s_name = ''s1'', s_connectedAt = 5, s_lastPing = 5,
                            s_authenticated = True \<rparr>)],
       pendingRequests = [], tunnels = [],
       connections = [(1, \<lparr> c_authenticated = True, c_slaveId = Some ''s1'',
                             c_authTimer = False \<rparr>),
                      (2, \<lparr> c_authenticated = True, c_slaveId = Some ''s1'',
                             c_authTimer = False \<rparr>)],
       sockets = [(1, \<lparr> readyState = CLOSING,
                         closeCode = Some (4004, ''Replaced by new connection''),
                         outbox = [(msg ''auth_success'')\<lparr>m_slaveId := Some ''s1''\<rparr>] \<rparr>),
                  (2, \<lparr> readyState = OPEN, closeCode = None,
                         outbox = [(msg ''auth_success'')\<lparr>m_slaveId := Some ''s1''\<rparr>] \<rparr>)],
       userSockets = [], userListeners = [], timers = [], promises = [], nextHandle = 0,
       console = [''[TunnelManager] New connection attempt'',
                  ''[TunnelManager] Slave authenticated: s1 (s1)'',
                  ''[TunnelManager] New connection attempt'',
                  ''[TunnelManager] Replacing existing connection for slave: s1'',
                  ''[TunnelManager] Slave authenticated: s1 (s1)''],
       continuations = [] \<rparr>"
  by (simp add: master_replaced_def master_s1_eq step_evals)

section \<open>Sanitized headers\<close>

text \<open>
  Claim C1. In every run of the master from its start in which the requests given to
  \<open>forwardHttpRequest\<close> come from the HTTP server, every \<open>http_request\<close> frame written to a
  control socket names none of the headers \<open>connection\<close>, \<open>keep-alive\<close>, \<open>proxy-authenticate\<close>,
  \<open>proxy-authorization\<close>, \<open>te\<close>, \<open>trailers\<close>, \<open>transfer-encoding\<close>, \<open>upgrade\<close> and
  \<open>x-target-slave\<close>, in any letter case, whichever of them the request carries. For a
  request to a slave whose record is in the registry with an open socket,
  \<open>forwardHttpRequest\<close> writes exactly one frame to that socket, the \<open>http_request\<close> frame of
  the request, and its header map is \<open>sanitizeHeaders\<close> of the request's and names none of
  these headers. Whatever names the user sent, in any letter case, the map with these names
  in lower case is a header map of the HTTP server.
\<close>

theorem http_request_frames_sanitized:
  assumes "list_all from_http_server events"
  shows "frames_sanitized (sockets (run JSON_parse (TunnelManager_new options env_secret) events))
         \<and> (lower_case_keys (q_headers request) \<and> Map_get (slaves st) slaveId = Some slave
              \<and> readyStateOf (sockets st) (s_ws slave) = OPEN
            \<longrightarrow> outbox_of (sockets (fst (forwardHttpRequest st slaveId request requestId)))
                  (s_ws slave)
                 = outbox_of (sockets st) (s_ws slave) @ [http_request_frame request requestId]
                \<and> m_headers (http_request_frame request requestId)
                    = Some (sanitizeHeaders (q_headers request))
                \<and> list_all (\<lambda>name. \<not> names_header (sanitizeHeaders (q_headers request)) name)
                     hop_by_hop)
         \<and> lower_case_keys (map (\<lambda>e. (toLowerCase (fst e), snd e)) user_headers)"
proof -
  have e: "lower_case_keys (map (\<lambda>e. (toLowerCase (fst e), snd e)) user_headers)"
    by (simp add: lower_case_keys_def list_all_iff toLowerCase_idem)
  have "frames_sanitized (sockets (TunnelManager_new options env_secret))"
    by (simp add: TunnelManager_new_def frames_sanitized_def)
  then have a: "frames_sanitized
                  (sockets (run JSON_parse (TunnelManager_new options env_secret) events))"
    using assms by (rule run_sanitized)
  have b: "outbox_of (sockets (fst (forwardHttpRequest st slaveId request requestId))) (s_ws slave)
             = outbox_of (sockets st) (s_ws slave) @ [http_request_frame request requestId]"
    if "Map_get (slaves st) slaveId = Some slave" "readyStateOf (sockets st) (s_ws slave) = OPEN"
    using that by (simp add: forwardHttpRequest_connected(2) outbox_of_ws_send)
  have c: "list_all (\<lambda>name. \<not> names_header (sanitizeHeaders (q_headers request)) name) hop_by_hop"
    if "lower_case_keys (q_headers request)"
    using that by (simp add: list_all_iff sanitizeHeaders_names_none)
  have d: "m_headers (http_request_frame request requestId)
             = Some (sanitizeHeaders (q_headers request))"
    by (simp add: http_request_frame_def)
  from a b c d e show ?thesis by blast
qed

lemma example_headers_lower_case:
  "lower_case_keys
     [(''connection'', ''close''), (''te'', ''trailers''), (''x-target-slave'', ''s1''),
      (''accept'', ''*/*'')]"
  "map (\<lambda>e. (toLowerCase (fst e), snd e))
     [(''Connection'', ''close''), (''TE'', ''trailers''), (''X-Target-Slave'', ''s1''),
      (''Accept'', ''*/*'')]
     = [(''connection'', ''close''), (''te'', ''trailers''), (''x-target-slave'', ''s1''),
        (''accept'', ''*/*'')]"
  by code_simp+

theorem http_request_frames_witness:
  "map (\<lambda>e. (toLowerCase (fst e), snd e))
     [(''Connection'', ''close''), (''TE'', ''trailers''), (''X-Target-Slave'', ''s1''),
      (''Accept'', ''*/*'')]
     = [(''connection'', ''close''), (''te'', ''trailers''), (''x-target-slave'', ''s1''),
        (''accept'', ''*/*'')]
   \<and> list_all from_http_server
     [Accept 1, Message 1 ''auth s1'' 0, Continuation,
      Forward ''s1''
        (get_request ''/api/projects''
           [(''connection'', ''close''), (''te'', ''trailers''), (''x-target-slave'', ''s1''),
            (''accept'', ''*/*'')]) ''r1'']
   \<and> frames_sanitized
     (sockets (run example_parse master0
        [Accept 1, Message 1 ''auth s1'' 0, Continuation,
         Forward ''s1''
           (get_request ''/api/projects''
              [(''connection'', ''close''), (''te'', ''trailers''), (''x-target-slave'', ''s1''),
               (''accept'', ''*/*'')]) ''r1'']))
   \<and> map m_headers
         (outbox_of (sockets (run example_parse master0
            [Accept 1, Message 1 ''auth s1'' 0, Continuation,
             Forward ''s1''
               (get_request ''/api/projects''
                  [(''connection'', ''close''), (''te'', ''trailers''), (''x-target-slave'', ''s1''),
                   (''accept'', ''*/*'')]) ''r1''])) 1)
       = [None, Some [(''accept'', ''*/*'')]]"
proof -
  have h: "list_all from_http_server
     [Accept 1, Message 1 ''auth s1'' 0, Continuation,
      Forward ''s1''
        (get_request ''/api/projects''
           [(''connection'', ''close''), (''te'', ''trailers''), (''x-target-slave'', ''s1''),
            (''accept'', ''*/*'')]) ''r1'']"
    using example_headers_lower_case(1) by (simp add: from_http_server_def get_request_def)
  have r: "run example_parse master0
        [Accept 1, Message 1 ''auth s1'' 0, Continuation,
         Forward ''s1''
           (get_request ''/api/projects''
              [(''connection'', ''close''), (''te'', ''trailers''), (''x-target-slave'', ''s1''),
               (''accept'', ''*/*'')]) ''r1'']
      = step example_parse master_s1
          (Forward ''s1''
           (get_request ''/api/projects''
              [(''connection'', ''close''), (''te'', ''trailers''), (''x-target-slave'', ''s1''),
               (''accept'', ''*/*'')]) ''r1'')"
    by (simp add: master_s1_def)
  have fs: "frames_sanitized
     (sockets (run example_parse master0
        [Accept 1, Message 1 ''auth s1'' 0, Continuation,
         Forward ''s1''
           (get_request ''/api/projects''
              [(''connection'', ''close''), (''te'', ''trailers''), (''x-target-slave'', ''s1''),
               (''accept'', ''*/*'')]) ''r1'']))"
    unfolding master0_def
    by (rule http_request_frames_sanitized [OF h, THEN conjunct1])
  have m: "map m_headers
         (outbox_of (sockets (step example_parse master_s1
          (Forward ''s1''
           (get_request ''/api/projects''
              [(''connection'', ''close''), (''te'', ''trailers''), (''x-target-slave'', ''s1''),
               (''accept'', ''*/*'')]) ''r1''))) 1)
       = [None, Some [(''accept'', ''*/*'')]]"
    by (simp add: master_s1_eq forwardHttpRequest_def get_request_def Let_def Map_get_def
        readyStateOf_def send_control_def ws_send_def sanitizeHeaders_def delete_prop_def
        outbox_of_def msg_def)
  from h fs m have "list_all from_http_server
     [Accept 1, Message 1 ''auth s1'' 0, Continuation,
      Forward ''s1''
        (get_request ''/api/projects''
           [(''connection'', ''close''), (''te'', ''trailers''), (''x-target-slave'', ''s1''),
            (''accept'', ''*/*'')]) ''r1'']
   \<and> frames_sanitized
     (sockets (run example_parse master0
        [Accept 1, Message 1 ''auth s1'' 0, Continuation,
         Forward ''s1''
           (get_request ''/api/projects''
              [(''connection'', ''close''), (''te'', ''trailers''), (''x-target-slave'', ''s1''),
               (''accept'', ''*/*'')]) ''r1'']))
   \<and> map m_headers
         (outbox_of (sockets (run example_parse master0
            [Accept 1, Message 1 ''auth s1'' 0, Continuation,
             Forward ''s1''
               (get_request ''/api/projects''
                  [(''connection'', ''close''), (''te'', ''trailers''), (''x-target-slave'', ''s1''),
                   (''accept'', ''*/*'')]) ''r1''])) 1)
       = [None, Some [(''accept'', ''*/*'')]]"
    unfolding r by simp
  with example_headers_lower_case(2) show ?thesis
    by (rule conjI)
qed

section \<open>Close of a slave's control connection\<close>


lemma no_tunnels_of_unregistered:
  assumes "registry_inv st" and "\<not> Map_has (slaves st) slaveId"
  shows "filter (\<lambda>e. t_slaveId (snd e) \<noteq> slaveId) (tunnels st) = tunnels st"
    and "tunnels_of st slaveId = []"
  using assms
  by (auto simp: registry_inv_def list_all_iff tunnels_of_def filter_empty_conv filter_id_conv)


lemma on_close_unregistered:
  assumes "Map_get (connections st) w = Some c" and "c_slaveId c = Some slaveId"
    and "slaveId = [] \<or> \<not> Map_has (slaves st) slaveId"
  shows "on_close st w = clearAuthTimer st w"
  using assms by (auto simp: on_close_def Let_def truthy_def str_def)




lemmas close_evals = on_close_def clearAuthTimer_def console_log_def Map_get_def Map_has_def
  Map_delete_def truthy_def str_def close_localWs_def readyStateOf_def ws_close_def Let_def



section \<open>A second connection under a registered slave id\<close>

text \<open>
  Claim C3, at the input where the code departs from it. After a second connection has
  authenticated as \<open>s1\<close>, the registry holds one record of \<open>s1\<close>, for the second socket,
  and the first socket is closing with code 4004. When the first socket then emits
  \<open>close\<close>, its close handler finds a record under \<open>s1\<close> and deletes it: the registry is
  empty and \<open>s1\<close> counts as not connected, although the second socket is open.
\<close>

theorem stale_close_removes_new_record:
  "Map_get (slaves master_replaced) ''s1''
     = Some \<lparr> s_ws = 2, s_name = ''s1'', s_connectedAt = 5, s_lastPing = 5,
              s_authenticated = True \<rparr>
   \<and> map (\<lambda>e. (fst e, readyState (snd e), closeCode (snd e))) (sockets master_replaced)
       = [(1, CLOSING, Some (4004, ''Replaced by new connection'')), (2, OPEN, None)]
   \<and> isSlaveConnected master_replaced ''s1''
   \<and> slaves (step example_parse master_replaced (Close 1)) = []
   \<and> readyStateOf (sockets (step example_parse master_replaced (Close 1))) 2 = OPEN
   \<and> \<not> isSlaveConnected (step example_parse master_replaced (Close 1)) ''s1''"
  by (simp add: master_replaced_eq set_closed_def close_evals isSlaveConnected_def)

section \<open>Completion of a pending request\<close>

lemma handleHttpResponse_no_pending:
  "m_requestId message = Some requestId \<Longrightarrow> Map_get (pendingRequests st) requestId = None
     \<Longrightarrow> handleHttpResponse st message
           = console_log (''[TunnelManager] No pending request for '' @ requestId) st"
  by (simp add: handleHttpResponse_def str_def)

lemma handleHttpResponse_removes:
  "m_requestId message = Some requestId
     \<Longrightarrow> Map_get (pendingRequests (handleHttpResponse st message)) requestId = None"
  by (cases "Map_get (pendingRequests st) requestId")
     (simp_all add: handleHttpResponse_def Let_def str_def Map_get_delete)

lemma requestTimeout_fires_removes:
  "Map_get (timers st) t = Some (requestId, p)
     \<Longrightarrow> Map_get (pendingRequests (requestTimeout_fires st t)) requestId = None"
  by (simp add: requestTimeout_fires_def Let_def Map_get_delete settle_def)

lemma cleared_timer_never_fires:
  "m_requestId message = Some requestId
     \<Longrightarrow> Map_get (pendingRequests st) requestId = Some pending
     \<Longrightarrow> requestTimeout_fires (handleHttpResponse st message) (p_timeout pending)
           = handleHttpResponse st message"
  by (simp add: handleHttpResponse_def requestTimeout_fires_def Let_def clearTimeout_def
      settle_def Map_get_delete)

text \<open>
  Claim C4. After a \<open>response\<close> frame for a request id, and after the timer of that id has
  fired, no pending entry is left under the id. A \<open>response\<close> frame for an id without a
  pending entry, or without an id, only writes a line to the console: the second of two
  responses for one id leaves every promise as the first one left it, and so does a
  response after the timeout. A timer cleared by a response does nothing when it fires.
\<close>

theorem completion_at_most_once:
  assumes "m_requestId frame = Some requestId" and "m_requestId later = Some requestId"
  shows "Map_get (pendingRequests (handleHttpResponse st frame)) requestId = None
         \<and> handleHttpResponse (handleHttpResponse st frame) later
             = console_log (''[TunnelManager] No pending request for '' @ requestId)
                 (handleHttpResponse st frame)
         \<and> promises (handleHttpResponse (handleHttpResponse st frame) later)
             = promises (handleHttpResponse st frame)
         \<and> (Map_get (timers st) t = Some (requestId, p)
              \<longrightarrow> Map_get (pendingRequests (requestTimeout_fires st t)) requestId = None
                  \<and> handleHttpResponse (requestTimeout_fires st t) later
                      = console_log (''[TunnelManager] No pending request for '' @ requestId)
                          (requestTimeout_fires st t))
         \<and> (Map_get (pendingRequests st) requestId = None
              \<longrightarrow> handleHttpResponse st later
                    = console_log (''[TunnelManager] No pending request for '' @ requestId) st)
         \<and> (m_requestId other = None
              \<longrightarrow> handleHttpResponse st other
                    = console_log ''[TunnelManager] No pending request for undefined'' st)
         \<and> (Map_get (pendingRequests st) requestId = Some pending
              \<longrightarrow> requestTimeout_fires (handleHttpResponse st frame) (p_timeout pending)
                    = handleHttpResponse st frame)"
proof -
  have a: "Map_get (pendingRequests (handleHttpResponse st frame)) requestId = None"
    using assms(1) by (rule handleHttpResponse_removes)
  have b: "handleHttpResponse (handleHttpResponse st frame) later
             = console_log (''[TunnelManager] No pending request for '' @ requestId)
                 (handleHttpResponse st frame)"
    using assms(2) a by (rule handleHttpResponse_no_pending)
  have c: "promises (handleHttpResponse (handleHttpResponse st frame) later)
             = promises (handleHttpResponse st frame)"
    by (simp add: b console_log_def)
  have d: "Map_get (pendingRequests (requestTimeout_fires st t)) requestId = None
                  \<and> handleHttpResponse (requestTimeout_fires st t) later
                      = console_log (''[TunnelManager] No pending request for '' @ requestId)
                          (requestTimeout_fires st t)"
    if "Map_get (timers st) t = Some (requestId, p)"
    using requestTimeout_fires_removes [OF that]
      handleHttpResponse_no_pending [OF assms(2), of "requestTimeout_fires st t"]
    by simp
  have e: "handleHttpResponse st other
             = console_log ''[TunnelManager] No pending request for undefined'' st"
    if "m_requestId other = None"
    using that by (simp add: handleHttpResponse_def str_def)
  from a b c d e show ?thesis
    using handleHttpResponse_no_pending [OF assms(2), of st]
      cleared_timer_never_fires [OF assms(1), of st pending]
    by blast
qed

theorem completion_witness:
  "m_requestId ((msg ''response'')\<lparr>m_requestId := Some ''r1'', m_status := Some 200\<rparr>) = Some ''r1''
   \<and> m_requestId ((msg ''response'')\<lparr>m_requestId := Some ''r1'', m_error := Some ''late''\<rparr>)
       = Some ''r1''
   \<and> promises (handleHttpResponse master_busy
        ((msg ''response'')\<lparr>m_requestId := Some ''r1'', m_status := Some 200\<rparr>))
       = [(0, Resolved \<lparr> r_status = Some 200, r_headers = None, r_body = None \<rparr>)]
   \<and> promises (handleHttpResponse
        (handleHttpResponse master_busy
           ((msg ''response'')\<lparr>m_requestId := Some ''r1'', m_status := Some 200\<rparr>))
        ((msg ''response'')\<lparr>m_requestId := Some ''r1'', m_error := Some ''late''\<rparr>))
       = [(0, Resolved \<lparr> r_status = Some 200, r_headers = None, r_body = None \<rparr>)]
   \<and> pendingRequests (handleHttpResponse master_busy
        ((msg ''response'')\<lparr>m_requestId := Some ''r1'', m_status := Some 200\<rparr>)) = []"
proof -
  have h1: "m_requestId ((msg ''response'')\<lparr>m_requestId := Some ''r1'', m_status := Some 200\<rparr>)
              = Some ''r1''"
    by simp
  have h2: "m_requestId ((msg ''response'')\<lparr>m_requestId := Some ''r1'', m_error := Some ''late''\<rparr>)
              = Some ''r1''"
    by simp
  have p: "promises (handleHttpResponse master_busy
        ((msg ''response'')\<lparr>m_requestId := Some ''r1'', m_status := Some 200\<rparr>))
       = [(0, Resolved \<lparr> r_status = Some 200, r_headers = None, r_body = None \<rparr>)]"
    and q: "pendingRequests (handleHttpResponse master_busy
        ((msg ''response'')\<lparr>m_requestId := Some ''r1'', m_status := Some 200\<rparr>)) = []"
    by (simp_all add: master_busy_eq handleHttpResponse_def Let_def Map_get_def Map_delete_def
        Map_has_def clearTimeout_def settle_def truthy_def str_def msg_def)
  show ?thesis
    using completion_at_most_once
            [where st = master_busy and t = 0 and p = 0 and requestId = "''r1''"
               and frame = "(msg ''response'')\<lparr>m_requestId := Some ''r1'', m_status := Some 200\<rparr>"
               and later = "(msg ''response'')\<lparr>m_requestId := Some ''r1'', m_error := Some ''late''\<rparr>"
               and other = "msg ''response''"
               and pending = "\<lparr> p_promise = 0, p_timeout = 0 \<rparr>", OF h1 h2]
          h1 h2 p q
    by (simp add: console_log_def)
qed

section \<open>Rounding to the nearest double\<close>

lemma bitlength_le_iff: "bitlength n \<le> k \<longleftrightarrow> n < 2 ^ k"
proof (induction k arbitrary: n)
  case 0
  show ?case by (subst bitlength.simps) simp
next
  case (Suc k)
  show ?case
  proof (cases "n = 0")
    case True
    then show ?thesis by (subst bitlength.simps) simp
  next
    case False
    have "bitlength n = Suc (bitlength (n div 2))"
      using False by (subst bitlength.simps) simp
    then have "bitlength n \<le> Suc k \<longleftrightarrow> n div 2 < 2 ^ k"
      using Suc.IH [of "n div 2"] by simp
    also have "\<dots> \<longleftrightarrow> n < 2 ^ Suc k" by auto
    finally show ?thesis .
  qed
qed

lemma bitlength_bound: "n < 2 ^ bitlength n"
  using bitlength_le_iff [of n "bitlength n"] by simp

lemma bitlength_lower: "0 < n \<Longrightarrow> 2 ^ (bitlength n - 1) \<le> n"
proof (rule ccontr)
  assume n: "0 < n" and "\<not> 2 ^ (bitlength n - 1) \<le> n"
  then have "bitlength n \<le> bitlength n - 1"
    by (simp add: bitlength_le_iff)
  then have "bitlength n = 0" by simp
  then have "n < 2 ^ 0" using bitlength_bound [of n] by simp
  with n show False by simp
qed

lemma bitlength_mono: "m \<le> n \<Longrightarrow> bitlength m \<le> bitlength n"
  using bitlength_bound [of n] by (simp add: bitlength_le_iff)

lemma bitlength_eqI: "2 ^ k \<le> n \<Longrightarrow> n < 2 ^ Suc k \<Longrightarrow> bitlength n = Suc k"
proof -
  assume a: "2 ^ k \<le> n" and b: "n < 2 ^ Suc k"
  from b have "bitlength n \<le> Suc k" by (simp only: bitlength_le_iff)
  moreover have "\<not> bitlength n \<le> k" using a by (simp add: bitlength_le_iff)
  ultimately show ?thesis by simp
qed

lemma rhe_lower: "N div 2 ^ s \<le> round_half_even N s"
  by (simp add: round_half_even_def Let_def)

lemma rhe_upper: "round_half_even N s \<le> N div 2 ^ s + 1"
  by (simp add: round_half_even_def Let_def)

lemma rhe_exact: "2 ^ s dvd N \<Longrightarrow> round_half_even N s = N div 2 ^ s"
  by (simp add: round_half_even_def Let_def dvd_eq_mod_eq_0)

lemma rhe_floor:
  assumes "(2::int) ^ s dvd P" and "P \<le> N"
  shows "P \<le> round_half_even N s * 2 ^ s"
proof -
  from assms(1) obtain p where p: "P = 2 ^ s * p" by (auto simp: dvd_def)
  have "p \<le> N div 2 ^ s"
    using assms(2) p by (metis mult.commute zdiv_mono1 nonzero_mult_div_cancel_left
        zero_less_numeral zero_less_power less_le power_not_zero zero_neq_numeral)
  then have "p \<le> round_half_even N s" using rhe_lower [of N s] by simp
  then show ?thesis using p by simp
qed

lemma rhe_ceil:
  assumes "(2::int) ^ s dvd P" and "N \<le> P"
  shows "round_half_even N s * 2 ^ s \<le> P"
proof (cases "2 ^ s dvd N")
  case True
  then have "round_half_even N s * 2 ^ s = N" by (simp add: rhe_exact)
  with assms(2) show ?thesis by simp
next
  case False
  from assms(1) obtain p where p: "P = p * 2 ^ s" by (auto simp: dvd_def)
  have "N div 2 ^ s < p"
  proof (rule ccontr)
    assume "\<not> N div 2 ^ s < p"
    then have "p \<le> N div 2 ^ s" by simp
    then have "p * 2 ^ s \<le> (N div 2 ^ s) * 2 ^ s" by simp
    also have "\<dots> \<le> N"
      by (simp flip: minus_mod_eq_div_mult)
    finally have "N = P" using assms(2) p by simp
    with assms(1) False show False by simp
  qed
  then have "round_half_even N s \<le> p" using rhe_upper [of N s] by simp
  then show ?thesis using p by simp
qed

lemma rhe_mono:
  assumes "N \<le> N'"
  shows "round_half_even N s \<le> round_half_even N' s"
proof (cases "N div 2 ^ s = N' div 2 ^ s")
  case True
  have "N mod 2 ^ s \<le> N' mod 2 ^ s"
    using assms True by (metis add_le_cancel_left mult_div_mod_eq)
  then show ?thesis using True by (auto simp: round_half_even_def Let_def)
next
  case False
  have "N div 2 ^ s \<le> N' div 2 ^ s" using assms by (simp add: zdiv_mono1)
  with False have "N div 2 ^ s + 1 \<le> N' div 2 ^ s" by simp
  with rhe_upper [of N s] rhe_lower [of N' s] show ?thesis by linarith
qed

lemma bitlength_shift:
  assumes "0 < n"
  shows "bitlength (n * 2 ^ k) = bitlength n + k"
proof -
  from assms have b: "0 < bitlength n"
    using bitlength_bound [of n] by (cases "bitlength n = 0") auto
  have "2 ^ (bitlength n - 1 + k) \<le> n * 2 ^ k"
    using bitlength_lower [OF assms] by (simp add: power_add)
  moreover have "n * 2 ^ k < 2 ^ Suc (bitlength n - 1 + k)"
    using bitlength_bound [of n] b by (simp add: power_add flip: power_Suc)
  ultimately have "bitlength (n * 2 ^ k) = Suc (bitlength n - 1 + k)"
    by (rule bitlength_eqI)
  with b show ?thesis by simp
qed

lemma nearest_scaled:
  "nearest N k * 2 ^ k
     = round_half_even N (max (bitlength (nat \<bar>N\<bar>) - 53) k)
         * 2 ^ max (bitlength (nat \<bar>N\<bar>) - 53) k"
proof -
  define s where "s = max (bitlength (nat \<bar>N\<bar>) - 53) k"
  have "k \<le> s" by (simp add: s_def)
  then have "(2::int) ^ (s - k) * 2 ^ k = 2 ^ s"
    by (simp flip: power_add)
  then show ?thesis
    by (simp add: nearest_def Let_def mult.assoc flip: s_def)
qed

lemma nearest_exact:
  assumes "0 \<le> L" and "2 ^ (bitlength (nat L) - 53) dvd L"
  shows "nearest (L * 2 ^ k) k = L"
proof (cases "L = 0")
  case True
  then show ?thesis by (simp add: nearest_def round_half_even_def Let_def)
next
  case False
  with assms(1) have pos: "0 < nat L" by simp
  define t where "t = bitlength (nat L) - 53"
  have n: "nat \<bar>L * 2 ^ k\<bar> = nat L * 2 ^ k"
    using assms(1) by (simp add: nat_mult_distrib abs_mult nat_power_eq)
  have s: "max (bitlength (nat \<bar>L * 2 ^ k\<bar>) - 53) k = t + k"
    by (simp add: n bitlength_shift [OF pos] t_def max_def)
  from assms(2) obtain l where l: "L = 2 ^ t * l" by (auto simp: dvd_def t_def)
  have d: "(2::int) ^ (t + k) dvd L * 2 ^ k"
    by (simp add: l power_add)
  have "round_half_even (L * 2 ^ k) (t + k) = L * 2 ^ k div 2 ^ (t + k)"
    using d by (rule rhe_exact)
  also have "\<dots> = l" by (simp add: l power_add)
  finally have r: "round_half_even (L * 2 ^ k) (t + k) = l" .
  show ?thesis
    unfolding nearest_def Let_def s r by (simp add: l)
qed

lemma nearest_mono:
  assumes "0 \<le> N" and "N \<le> N'"
  shows "nearest N k \<le> nearest N' k"
proof -
  define s where "s = max (bitlength (nat \<bar>N\<bar>) - 53) k"
  define s' where "s' = max (bitlength (nat \<bar>N'\<bar>) - 53) k"
  have le: "bitlength (nat \<bar>N\<bar>) \<le> bitlength (nat \<bar>N'\<bar>)"
    using assms by (intro bitlength_mono) simp
  then have ss: "s \<le> s'"
    unfolding s_def s'_def by (intro max.mono diff_le_mono) simp_all
  have "round_half_even N s * 2 ^ s \<le> round_half_even N' s' * 2 ^ s'"
  proof (cases "s = s'")
    case True
    then show ?thesis using rhe_mono [OF assms(2), of s] by simp
  next
    case False
    with ss have lt: "s < s'" by simp
    then have e': "s' = bitlength (nat \<bar>N'\<bar>) - 53" and k': "k < s'"
      by (auto simp: s_def s'_def max_def split: if_splits)
    have "bitlength (nat \<bar>N\<bar>) - 53 \<le> s" by (simp add: s_def)
    with lt e' have "bitlength (nat \<bar>N\<bar>) - 53 < bitlength (nat \<bar>N'\<bar>) - 53" by simp
    then have bl: "bitlength (nat \<bar>N\<bar>) < bitlength (nat \<bar>N'\<bar>)" by arith
    define P :: int where "P = 2 ^ (bitlength (nat \<bar>N'\<bar>) - 1)"
    have pos': "0 < nat \<bar>N'\<bar>"
      using bl bitlength_bound [of "nat \<bar>N'\<bar>"] by (cases "N' = 0") (auto simp: bitlength.simps)
    have "nat \<bar>N\<bar> < 2 ^ bitlength (nat \<bar>N\<bar>)" by (rule bitlength_bound)
    also have "\<dots> \<le> (2::nat) ^ (bitlength (nat \<bar>N'\<bar>) - 1)"
      using bl by (intro power_increasing) auto
    finally have "int (nat \<bar>N\<bar>) < int (2 ^ (bitlength (nat \<bar>N'\<bar>) - 1))"
      by (simp only: of_nat_less_iff)
    then have NP: "N \<le> P" using assms(1) by (simp add: P_def)
    have "int (2 ^ (bitlength (nat \<bar>N'\<bar>) - 1)) \<le> int (nat \<bar>N'\<bar>)"
      using bitlength_lower [OF pos'] by (simp only: of_nat_le_iff)
    then have PN: "P \<le> N'" using assms by (simp add: P_def)
    have "s \<le> bitlength (nat \<bar>N'\<bar>) - 1" "s' \<le> bitlength (nat \<bar>N'\<bar>) - 1"
      using lt e' by arith+
    then have d: "2 ^ s dvd P" "2 ^ s' dvd P"
      unfolding P_def by (simp_all add: le_imp_power_dvd)
    have "round_half_even N s * 2 ^ s \<le> P" using d(1) NP by (rule rhe_ceil)
    also have "P \<le> round_half_even N' s' * 2 ^ s'" using d(2) PN by (rule rhe_floor)
    finally show ?thesis .
  qed
  then have "nearest N k * 2 ^ k \<le> nearest N' k * 2 ^ k"
    by (simp add: nearest_scaled s_def s'_def)
  then show ?thesis by simp
qed

lemma bitlength_eq:
  assumes "0 < k" and "2 ^ (k - 1) \<le> n" and "n < 2 ^ k"
  shows "bitlength n = k"
  using bitlength_eqI [of "k - 1" n] assms by simp

lemma nearest_zero: "nearest 0 k = 0"
  using nearest_exact [of 0 k] by simp

lemma nearest_nonneg: "0 \<le> N \<Longrightarrow> 0 \<le> nearest N k"
  using nearest_mono [of 0 N k] by (simp add: nearest_zero)

lemma nearest_double:
  assumes "is_double (Finite N)" and "0 \<le> N"
  shows "nearest N 0 = N"
  using nearest_exact [of N 0] assms by (simp add: is_double_def)

lemma fl_mono:
  assumes "0 \<le> N" and "N \<le> N'"
  shows "number_le (fl N k) (fl N' k)"
  using nearest_mono [OF assms, of k] nearest_nonneg [OF assms(1), of k]
  by (simp add: fl_def Let_def)

lemma is_double_shift:
  assumes "0 \<le> a" and "a < 2 ^ 53" and "a * 2 ^ k < 2 ^ 2098"
  shows "is_double (Finite (a * 2 ^ k))"
proof (cases "a = 0")
  case True
  then show ?thesis by (simp add: is_double_def)
next
  case False
  with assms(1) have pos: "0 < nat a" by simp
  have ab: "\<bar>a * 2 ^ k\<bar> = a * 2 ^ k" using assms(1) by simp
  have n: "nat (a * 2 ^ k) = nat a * 2 ^ k"
    using assms(1) by (simp add: nat_mult_distrib nat_power_eq)
  have "nat a < 2 ^ 53" using assms(1,2) by (simp add: nat_less_iff)
  then have "bitlength (nat a) \<le> 53" by (simp only: bitlength_le_iff)
  then have "bitlength (nat a * 2 ^ k) - 53 \<le> k"
    by (simp add: bitlength_shift [OF pos])
  then have "(2::int) ^ (bitlength (nat a * 2 ^ k) - 53) dvd 2 ^ k"
    by (rule le_imp_power_dvd)
  then have "(2::int) ^ (bitlength (nat a * 2 ^ k) - 53) dvd a * 2 ^ k"
    by (rule dvd_mult)
  with assms(3) show ?thesis
    unfolding is_double_def number.case ab n by simp
qed

lemma backoff_exact:
  assumes "is_double (Finite b)" and "0 < b"
  shows "number_times (Finite b) (Math_pow2 n)
           = (if n \<le> 1023 \<and> b * 2 ^ n < 2 ^ 2098 then Finite (b * 2 ^ n) else PosInfinity)"
proof (cases "n \<le> 1023")
  case False
  with assms(2) show ?thesis by (simp add: Math_pow2_def)
next
  case True
  have pos: "0 < nat b" using assms(2) by simp
  have n: "nat \<bar>b * 2 ^ n\<bar> = nat b * 2 ^ n"
    using assms(2) by (simp add: nat_mult_distrib nat_power_eq abs_mult)
  from assms(1) have d: "2 ^ (bitlength (nat b) - 53) dvd b"
    using assms(2) by (simp add: is_double_def)
  have "bitlength (nat b) + n - 53 \<le> (bitlength (nat b) - 53) + n" by simp
  then have "(2::int) ^ (bitlength (nat b) + n - 53) dvd 2 ^ ((bitlength (nat b) - 53) + n)"
    by (rule le_imp_power_dvd)
  also have "(2::int) ^ ((bitlength (nat b) - 53) + n) dvd b * 2 ^ n"
    using d by (simp add: power_add mult_dvd_mono)
  finally have "2 ^ (bitlength (nat \<bar>b * 2 ^ n\<bar>) - 53) dvd b * 2 ^ n"
    by (simp only: n bitlength_shift [OF pos])
  moreover have "0 \<le> b * 2 ^ n" using assms(2) by simp
  ultimately have "nearest (b * 2 ^ n * 2 ^ 1074) 1074 = b * 2 ^ n"
    using nearest_exact [of "b * 2 ^ n" 1074] by simp
  moreover have "b * 2 ^ (n + 1074) = b * 2 ^ n * 2 ^ 1074"
    by (simp only: power_add mult.assoc)
  ultimately have e: "nearest (b * 2 ^ (n + 1074)) 1074 = b * 2 ^ n"
    by (simp only:)
  have p: "0 < b * 2 ^ n" using assms(2) by simp
  have "number_times (Finite b) (Math_pow2 n) = fl (b * 2 ^ (n + 1074)) 1074"
    using True by (simp add: Math_pow2_def)
  also have "\<dots> = (if b * 2 ^ n < 2 ^ 2098 then Finite (b * 2 ^ n) else PosInfinity)"
    unfolding fl_def Let_def e using p by (simp del: power_numeral)
  finally show ?thesis using True by simp
qed

lemma double_below_one:
  assumes "is_double (Finite r)" and "0 \<le> r" and "r < 2 ^ 1074"
  shows "r \<le> 2 ^ 1074 - 2 ^ 1021"
proof (cases "bitlength (nat r) \<le> 1073")
  case True
  then have "nat r < 2 ^ 1073" by (simp only: bitlength_le_iff)
  then have "r < 2 ^ 1073" using assms(2) by (simp add: nat_less_iff)
  then show ?thesis by simp
next
  case False
  have "nat r < 2 ^ 1074" using assms(2,3) by (simp add: nat_less_iff)
  then have "bitlength (nat r) \<le> 1074" by (simp only: bitlength_le_iff)
  with False have "bitlength (nat r) = 1074" by simp
  with assms(1,2) have "(2::int) ^ 1021 dvd r" by (simp add: is_double_def)
  then obtain q where q: "r = 2 ^ 1021 * q" by (auto simp: dvd_def)
  have "(2::int) ^ 1021 * q < 2 ^ 1021 * 2 ^ 53" using assms(3) q by simp
  then have "q < 2 ^ 53" by (simp only: mult_less_cancel_left_pos zero_less_power zero_less_numeral)
  then have "q \<le> 2 ^ 53 - 1" by simp
  then have "(2::int) ^ 1021 * q \<le> 2 ^ 1021 * (2 ^ 53 - 1)"
    by (simp only: mult_le_cancel_left_pos zero_less_power zero_less_numeral)
  then show ?thesis using q by simp
qed

lemma nearest_cases:
  assumes "0 \<le> N" and "0 < b" and "2 ^ (b - 1) \<le> N" and "N < 2 ^ b"
    and "s = max (b - 53) k" and "N = q * 2 ^ s + r" and "0 \<le> r" and "r < 2 ^ s"
  shows "nearest N k
           = (if 2 * r < 2 ^ s then q
              else if 2 ^ s < 2 * r then q + 1
              else if even q then q else q + 1) * 2 ^ (s - k)"
proof -
  have "2 ^ (b - 1) \<le> nat \<bar>N\<bar>" "nat \<bar>N\<bar> < 2 ^ b"
    using assms(1,3,4) by (simp_all add: le_nat_iff nat_less_iff)
  with assms(2) have bl: "bitlength (nat \<bar>N\<bar>) = b" by (rule bitlength_eq)
  have "N div 2 ^ s = q" "N mod 2 ^ s = r"
    using assms(7,8) by (simp_all add: assms(6))
  then show ?thesis
    by (simp add: nearest_def round_half_even_def Let_def bl flip: assms(5))
qed

lemma jitter_max:
  "nearest ((2 ^ 1074 - 2 ^ 1021) * (1000 * 2 ^ 1074)) 1074 = 1000 * 2 ^ 1074 - 2 ^ 1031"
  using nearest_cases [where N = "(2 ^ 1074 - 2 ^ 1021) * (1000 * 2 ^ 1074)" and b = 2158
      and k = 1074 and s = 2105 and q = "1000 * 2 ^ 43 - 1" and r = "24 * 2 ^ 2095"]
  by simp

lemma jitter_bounds:
  assumes "is_double (Finite r)" and "0 \<le> r" and "r < 2 ^ 1074"
  shows "\<exists>j. number_times (Finite r) (number_of_nat 1000) = Finite j
              \<and> 0 \<le> j \<and> j \<le> 1000 * 2 ^ 1074 - 2 ^ 1031"
proof -
  have "r \<le> 2 ^ 1074 - 2 ^ 1021" using assms by (rule double_below_one)
  then have "r * (1000 * 2 ^ 1074) \<le> (2 ^ 1074 - 2 ^ 1021) * (1000 * 2 ^ 1074)"
    by (rule mult_right_mono) simp
  moreover have "0 \<le> r * (1000 * 2 ^ 1074)" using assms(2) by simp
  ultimately have "nearest (r * (1000 * 2 ^ 1074)) 1074 \<le> 1000 * 2 ^ 1074 - 2 ^ 1031"
    and "0 \<le> nearest (r * (1000 * 2 ^ 1074)) 1074"
    using nearest_mono [of "r * (1000 * 2 ^ 1074)" "(2 ^ 1074 - 2 ^ 1021) * (1000 * 2 ^ 1074)" 1074]
      nearest_nonneg [of "r * (1000 * 2 ^ 1074)" 1074]
    by (simp_all only: jitter_max)
  then show ?thesis
    by (simp add: number_of_nat_def fl_def Let_def)
qed


lemma is_double_bound: "is_double (Finite N) \<Longrightarrow> N < 2 ^ 2098"
  unfolding is_double_def number.case by linarith

lemma double_times_pow2:
  assumes "is_double (Finite b)" and "0 < b" and "b * 2 ^ n < 2 ^ 2098"
  shows "is_double (Finite (b * 2 ^ n))"
proof -
  have pos: "0 < nat b" using assms(2) by simp
  have ab: "\<bar>b * 2 ^ n\<bar> = b * 2 ^ n" using assms(2) by simp
  have n: "nat (b * 2 ^ n) = nat b * 2 ^ n"
    using assms(2) by (simp add: nat_mult_distrib nat_power_eq)
  from assms(1) have d: "2 ^ (bitlength (nat b) - 53) dvd b"
    using assms(2) by (simp add: is_double_def)
  have "bitlength (nat b) + n - 53 \<le> (bitlength (nat b) - 53) + n" by simp
  then have "(2::int) ^ (bitlength (nat b) + n - 53) dvd 2 ^ ((bitlength (nat b) - 53) + n)"
    by (rule le_imp_power_dvd)
  also have "(2::int) ^ ((bitlength (nat b) - 53) + n) dvd b * 2 ^ n"
    using d by (simp add: power_add mult_dvd_mono)
  finally have "2 ^ (bitlength (nat b * 2 ^ n) - 53) dvd b * 2 ^ n"
    by (simp only: bitlength_shift [OF pos])
  with assms(3) show ?thesis
    unfolding is_double_def number.case ab n by simp
qed

lemma capped_eq:
  assumes "is_double (Finite b)" and "0 < b" and "is_double (Finite m)"
  shows "Math_min (number_times (Finite b) (Math_pow2 n)) (Finite m)
           = Finite (if n \<le> 1023 \<and> b * 2 ^ n \<le> m then b * 2 ^ n else m)"
proof -
  from assms(3) have m: "m < 2 ^ 2098" by (rule is_double_bound)
  show ?thesis
    unfolding backoff_exact [OF assms(1,2)] using m
    by (simp add: Math_min_def del: power_numeral)
qed

lemma capped_double:
  assumes "is_double (Finite b)" and "0 < b" and "is_double (Finite m)"
  shows "is_double (Finite (if n \<le> 1023 \<and> b * 2 ^ n \<le> m then b * 2 ^ n else m))"
proof (cases "n \<le> 1023 \<and> b * 2 ^ n \<le> m")
  case True
  from assms(3) have "m < 2 ^ 2098" by (rule is_double_bound)
  with True have "b * 2 ^ n < 2 ^ 2098" by linarith
  with assms(1,2) have "is_double (Finite (b * 2 ^ n))" by (rule double_times_pow2)
  with True show ?thesis by simp
next
  case False
  with assms(3) show ?thesis by auto
qed

lemma plus_lower:
  assumes "is_double (Finite c)" and "0 \<le> c" and "0 \<le> j"
  shows "number_le (Finite c) (number_plus (Finite c) (Finite j))"
proof -
  have "nearest c 0 \<le> nearest (c + j) 0"
    using assms(2,3) by (intro nearest_mono) simp_all
  then have "c \<le> nearest (c + j) 0"
    by (simp only: nearest_double [OF assms(1,2)])
  with assms(2) show ?thesis
    by (simp add: fl_def Let_def del: power_numeral)
qed

lemma plus_mono:
  assumes "0 \<le> c" and "0 \<le> j" and "j \<le> j'"
  shows "number_le (number_plus (Finite c) (Finite j)) (number_plus (Finite c) (Finite j'))"
  using fl_mono [of "c + j" "c + j'" 0] assms by simp

lemma number_of_nat_double: "n < 2 ^ 53 \<Longrightarrow> is_double (number_of_nat n)"
proof -
  assume n: "n < 2 ^ 53"
  then have a: "int n < 2 ^ 53" by (simp del: power_numeral)
  then have "int n * 2 ^ 1074 < 2 ^ 53 * 2 ^ 1074" by (intro mult_strict_right_mono) simp_all
  also have "(2::int) ^ 53 * 2 ^ 1074 \<le> 2 ^ 2098" by simp
  finally show ?thesis
    unfolding number_of_nat_def using a by (intro is_double_shift) simp_all
qed

lemma fl_double:
  assumes "is_double (Finite L)" and "0 \<le> L"
  shows "fl (L * 2 ^ k) k = Finite L"
proof -
  have "nearest (L * 2 ^ k) k = L"
    using assms by (intro nearest_exact) (simp_all add: is_double_def)
  moreover have "L < 2 ^ 2098" using assms(1) by (rule is_double_bound)
  ultimately show ?thesis
    using assms(2) by (simp add: fl_def Let_def del: power_numeral)
qed

lemma plus_of_nat:
  assumes "a + b < 2 ^ 53"
  shows "number_plus (number_of_nat a) (number_of_nat b) = number_of_nat (a + b)"
proof -
  have "is_double (Finite (int (a + b) * 2 ^ 1074))"
    using number_of_nat_double [OF assms] by (simp only: number_of_nat_def)
  then have "fl (int (a + b) * 2 ^ 1074 * 2 ^ 0) 0 = Finite (int (a + b) * 2 ^ 1074)"
    by (rule fl_double) simp
  moreover have "int a * 2 ^ 1074 + int b * 2 ^ 1074 = int (a + b) * 2 ^ 1074 * 2 ^ 0"
    by (simp add: algebra_simps del: power_numeral)
  ultimately show ?thesis
    by (simp only: number_of_nat_def number_plus.simps)
qed

lemma times_pow2_of_nat:
  assumes "0 < a" and "a * 2 ^ n < 2 ^ 53"
  shows "number_times (number_of_nat a) (Math_pow2 n) = number_of_nat (a * 2 ^ n)"
proof -
  have a: "a < 2 ^ 53"
    using assms(2) by (metis le_less_trans mult.right_neutral mult_le_mono2 one_le_numeral
        one_le_power)
  have d: "is_double (Finite (int a * 2 ^ 1074))"
    using number_of_nat_double [OF a] by (simp only: number_of_nat_def)
  have n: "n \<le> 1023"
  proof (rule ccontr)
    assume "\<not> n \<le> 1023"
    then have "(2::nat) ^ 53 \<le> 2 ^ n" by (intro power_increasing) simp_all
    also have "\<dots> \<le> a * 2 ^ n" using assms(1) by simp
    finally show False using assms(2) by simp
  qed
  have "is_double (number_of_nat (a * 2 ^ n))" using assms(2) by (rule number_of_nat_double)
  then have "int a * 2 ^ 1074 * 2 ^ n < 2 ^ 2098"
    by (simp add: number_of_nat_def is_double_def mult.assoc mult.left_commute abs_mult
        del: power_numeral) (simp add: mult.commute mult.left_commute)
  then show ?thesis
    using backoff_exact [OF d, of n] assms(1) n
    by (simp add: number_of_nat_def mult.assoc mult.left_commute del: power_numeral)
qed

lemma min_of_nat: "Math_min (number_of_nat a) (number_of_nat b) = number_of_nat (min a b)"
  by (simp add: Math_min_def number_of_nat_def min_def del: power_numeral)

lemma le_of_nat: "number_le (number_of_nat a) (number_of_nat b) = (a \<le> b)"
  by (simp add: number_of_nat_def del: power_numeral)

lemma less_of_nat: "number_less (number_of_nat a) (number_of_nat b) = (a < b)"
  by (simp add: number_of_nat_def del: power_numeral)

lemma times_half:
  assumes "n < 2 ^ 53"
  shows "number_times (Finite (2 ^ 1073)) (number_of_nat (2 * n)) = number_of_nat n"
proof -
  have "is_double (Finite (int n * 2 ^ 1074))"
    using number_of_nat_double [OF assms] by (simp only: number_of_nat_def)
  then have "fl (int n * 2 ^ 1074 * 2 ^ 1074) 1074 = Finite (int n * 2 ^ 1074)"
    by (rule fl_double) simp
  moreover have "2 ^ 1073 * (int (2 * n) * 2 ^ 1074) = int n * 2 ^ 1074 * 2 ^ 1074"
    by simp
  ultimately show ?thesis
    by (simp only: number_of_nat_def number_times.simps)
qed

lemma first_delay_max:
  "nearest (5000 * 2 ^ 1074 + (1000 * 2 ^ 1074 - 2 ^ 1031)) 0 = 6000 * 2 ^ 1074"
  using nearest_cases [where N = "5000 * 2 ^ 1074 + (1000 * 2 ^ 1074 - 2 ^ 1031)" and b = 1087
      and k = 0 and s = 1034 and q = "6000 * 2 ^ 40 - 1" and r = "7 * 2 ^ 1031"]
  by simp

lemma first_delay:
  assumes "is_double (Finite r)" and "0 \<le> r" and "r < 2 ^ 1074"
  shows "\<exists>t. number_plus (number_of_nat 5000) (number_times (Finite r) (number_of_nat 1000))
                = Finite t
              \<and> 5000 * 2 ^ 1074 \<le> t \<and> t \<le> 6000 * 2 ^ 1074"
proof -
  from jitter_bounds [OF assms] obtain j
    where j: "number_times (Finite r) (number_of_nat 1000) = Finite j"
      "0 \<le> j" "j \<le> 1000 * 2 ^ 1074 - 2 ^ 1031"
    by blast
  have d: "is_double (Finite (5000 * 2 ^ 1074))"
    using number_of_nat_double [of 5000] by (simp add: number_of_nat_def)
  have "nearest (5000 * 2 ^ 1074) 0 \<le> nearest (5000 * 2 ^ 1074 + j) 0"
    using j(2) by (intro nearest_mono) simp_all
  then have lo: "5000 * 2 ^ 1074 \<le> nearest (5000 * 2 ^ 1074 + j) 0"
    using nearest_double [OF d] by simp
  have "nearest (5000 * 2 ^ 1074 + j) 0
          \<le> nearest (5000 * 2 ^ 1074 + (1000 * 2 ^ 1074 - 2 ^ 1031)) 0"
    using j(2,3) by (intro nearest_mono) simp_all
  then have hi: "nearest (5000 * 2 ^ 1074 + j) 0 \<le> 6000 * 2 ^ 1074"
    by (simp only: first_delay_max)
  have "number_plus (number_of_nat 5000) (Finite j) = Finite (nearest (5000 * 2 ^ 1074 + j) 0)"
    using lo hi by (simp add: number_of_nat_def fl_def Let_def)
  with lo hi show ?thesis by (simp add: j(1))
qed

section \<open>Reconnect backoff\<close>

lemma scheduleReconnect_timer:
  "reconnectTimer (scheduleReconnect cl random)
     = Some (number_plus
               (Math_min (number_times (baseDelay cl) (Math_pow2 (reconnectAttempts cl)))
                  (maxDelay cl))
               (number_times random (number_of_nat 1000)))"
  by (simp add: scheduleReconnect_def client_log_def Let_def)

lemma scheduleReconnect_attempts:
  "reconnectAttempts (scheduleReconnect cl random) = reconnectAttempts cl + 1"
  by (simp add: scheduleReconnect_def client_log_def Let_def)

lemma send_attempts: "reconnectAttempts (send cl m) = reconnectAttempts cl"
  by (simp add: send_def split: option.splits)

lemma connect_attempts: "reconnectAttempts cl \<le> reconnectAttempts (connect cl de random)"
  by (simp add: connect_def scheduleReconnect_attempts client_log_def split: option.splits)

lemma start_attempts: "reconnectAttempts cl \<le> reconnectAttempts (start cl de random)"
proof -
  have "reconnectAttempts c \<le> reconnectAttempts (connect c de random)" for c
    by (rule connect_attempts)
  from this [of "client_log x (client_log y cl)" for x y] show ?thesis
    by (simp add: start_def client_log_def)
qed

lemma handleMessage_attempts:
  "m_type message \<noteq> Some ''auth_success''
     \<Longrightarrow> reconnectAttempts (handleMessage cl message de) = reconnectAttempts cl"
  by (simp add: handleMessage_def handleHttpRequest_def handleWsTunnelOpen_def handleWsMessage_def
      handleWsTunnelClose_def send_attempts client_log_def Let_def split: option.splits)

lemma client_on_close_attempts:
  "reconnectAttempts (client_on_close cl random) = reconnectAttempts cl + 1"
  by (simp add: client_on_close_def scheduleReconnect_attempts cleanupTunnels_def stopPing_def
      client_log_def Let_def)

lemma control_state_attempts: "reconnectAttempts (control_state cl rs) = reconnectAttempts cl"
  by (simp add: control_state_def split: option.splits)

lemma client_step_attempts:
  assumes "reconnectAttempts (client_step JSON_parse cl ev) < reconnectAttempts cl"
  shows "\<exists>d de m. ev = SocketMessage d de \<and> JSON_parse d = Some m
                   \<and> m_type m = Some ''auth_success''"
proof (cases ev)
  case (Start de r)
  with assms start_attempts [of cl de r] show ?thesis by simp
next
  case (ReconnectTimer de r)
  with assms connect_attempts [of "cl\<lparr>reconnectPending := False\<rparr>" de r] show ?thesis
    by (simp split: if_splits)
next
  case SocketOpen
  with assms show ?thesis
    by (simp add: client_on_open_def authenticate_def send_attempts client_log_def
        control_state_attempts)
next
  case (SocketMessage d de)
  show ?thesis
  proof (cases "JSON_parse d")
    case None
    with assms SocketMessage show ?thesis
      by (simp add: client_on_message_def client_log_def)
  next
    case (Some m)
    with assms SocketMessage handleMessage_attempts [of m cl de] show ?thesis
      by (cases "m_type m = Some ''auth_success''") (simp_all add: client_on_message_def)
  qed
next
  case (SocketClose r)
  with assms show ?thesis
    by (simp add: client_on_close_attempts control_state_attempts)
next
  case SocketError
  with assms show ?thesis by (simp add: client_on_error_def client_log_def)
next
  case (PingTick now)
  with assms show ?thesis
    by (simp add: ping_tick_def send_attempts split: option.splits if_splits)
next
  case (LocalCallDone rid res)
  with assms show ?thesis
    by (simp add: local_call_done_def send_attempts client_log_def split: sum.splits)
next
  case (LocalOpen w)
  with assms show ?thesis
    by (simp add: local_on_open_def client_log_def Let_def split: option.splits)
next
  case (LocalMessage w d)
  with assms show ?thesis
    by (simp add: local_on_message_def send_attempts split: option.splits)
next
  case (LocalClose w)
  with assms show ?thesis
    by (simp add: local_on_close_def send_attempts client_log_def Let_def split: option.splits)
next
  case Stop
  with assms show ?thesis
    by (simp add: stop_def cleanupTunnels_def stopPing_def client_log_def Let_def
        split: if_splits)
qed

text \<open>
  Claim C5, as the code has it. Let \<open>baseDelay\<close> and \<open>maxDelay\<close> be positive doubles, the draw
  of \<open>Math.random()\<close> a double in \<open>[0, 1)\<close> (in units of \<open>2^-1074\<close>, the number 1 is \<open>2^1074\<close>),
  and \<open>n = reconnectAttempts\<close>. The delay of the
  reconnect timer is the double sum of \<open>delay = Math.min(baseDelay * Math.pow(2, n), maxDelay)\<close>
  and \<open>jitter = Math.random() * 1000\<close>. The backoff \<open>delay\<close> is exactly \<open>baseDelay * 2^n\<close> when
  that is at most \<open>maxDelay\<close> (and \<open>n\<close> at most 1023, where \<open>Math.pow(2, n)\<close> is finite), and
  \<open>maxDelay\<close> otherwise; the jitter is at least 0 and less than 1000. The delay of the timer
  is at least the capped backoff \<open>delay\<close> (not \<open>baseDelay * 2^n\<close>) and at most the double sum
  \<open>delay + 1000\<close>, which is the exact sum when that is a double; it can be equal to
  \<open>delay + 1000\<close>, by the rounding of the sum. Scheduling
  increments the attempt counter; \<open>handleAuthSuccess\<close> sets it to 0, and no event of the
  slave other than an \<open>auth_success\<close> frame decreases it. With the default delays the first
  delay is at least 5000 and at most 6000.
\<close>

theorem reconnect_delay_bounds:
  assumes "baseDelay cl = Finite b" and "0 < b" and "is_double (Finite b)"
    and "maxDelay cl = Finite m" and "0 < m" and "is_double (Finite m)"
    and "is_double (Finite r)" and "0 \<le> r" and "r < 2 ^ 1074"
  shows "(let delay = Math_min (number_times (baseDelay cl) (Math_pow2 (reconnectAttempts cl)))
                        (maxDelay cl);
              jitter = number_times (Finite r) (number_of_nat 1000);
              totalDelay = number_plus delay jitter
          in reconnectTimer (scheduleReconnect cl (Finite r)) = Some totalDelay
             \<and> delay = Finite (if reconnectAttempts cl \<le> 1023 \<and> b * 2 ^ reconnectAttempts cl \<le> m
                                then b * 2 ^ reconnectAttempts cl else m)
             \<and> number_le (number_of_nat 0) jitter
             \<and> number_less jitter (number_of_nat 1000)
             \<and> number_le delay totalDelay
             \<and> number_le totalDelay (number_plus delay (number_of_nat 1000))
             \<and> (\<forall>capped. delay = Finite capped \<and> is_double (Finite (capped + 1000 * 2 ^ 1074))
                   \<longrightarrow> number_plus delay (number_of_nat 1000)
                         = Finite (capped + 1000 * 2 ^ 1074)))
         \<and> reconnectAttempts (scheduleReconnect cl (Finite r)) = reconnectAttempts cl + 1
         \<and> reconnectAttempts (handleAuthSuccess cl message) = 0
         \<and> (\<forall>ev. reconnectAttempts (client_step JSON_parse cl ev) < reconnectAttempts cl
                \<longrightarrow> (\<exists>d de f. ev = SocketMessage d de \<and> JSON_parse d = Some f
                               \<and> m_type f = Some ''auth_success''))
         \<and> (\<exists>t. reconnectTimer
                   (scheduleReconnect
                      (TunnelClient_new (options\<lparr>co_baseDelay := None, co_maxDelay := None\<rparr>) env)
                      (Finite r)) = Some t
                \<and> number_le (number_of_nat 5000) t \<and> number_le t (number_of_nat 6000))"
proof -
  define n where "n = reconnectAttempts cl"
  define c where "c = (if n \<le> 1023 \<and> b * 2 ^ n \<le> m then b * 2 ^ n else m)"
  have cap: "Math_min (number_times (baseDelay cl) (Math_pow2 n)) (maxDelay cl) = Finite c"
    unfolding assms(1,4) c_def using assms(3,2,6) by (rule capped_eq)
  have cd: "is_double (Finite c)"
    unfolding c_def using assms(3,2,6) by (rule capped_double)
  have cpos: "0 \<le> c"
    using assms(2,5) by (simp add: c_def)
  from jitter_bounds [OF assms(7,8,9)] obtain j
    where j: "number_times (Finite r) (number_of_nat 1000) = Finite j"
      "0 \<le> j" "j \<le> 1000 * 2 ^ 1074 - 2 ^ 1031"
    by blast
  have j0: "number_le (number_of_nat 0) (Finite j)"
    using j(2) by (simp add: number_of_nat_def)
  have j1: "number_less (Finite j) (number_of_nat 1000)"
    using j(3) by (simp add: number_of_nat_def)
  have lo: "number_le (Finite c) (number_plus (Finite c) (Finite j))"
    using cd cpos j(2) by (rule plus_lower)
  have "j \<le> 1000 * 2 ^ 1074" using j(3) by simp
  with cpos j(2)
  have "number_le (number_plus (Finite c) (Finite j)) (number_plus (Finite c) (Finite (1000 * 2 ^ 1074)))"
    by (rule plus_mono)
  then have hi: "number_le (number_plus (Finite c) (Finite j))
                   (number_plus (Finite c) (number_of_nat 1000))"
    by (simp only: number_of_nat_def of_nat_numeral)
  have ex: "number_plus (Finite c) (number_of_nat 1000) = Finite (c + 1000 * 2 ^ 1074)"
    if "is_double (Finite (c + 1000 * 2 ^ 1074))"
  proof -
    have "fl ((c + 1000 * 2 ^ 1074) * 2 ^ 0) 0 = Finite (c + 1000 * 2 ^ 1074)"
      using that cpos by (intro fl_double) simp_all
    then show ?thesis
      by (simp add: number_of_nat_def)
  qed
  have a: "reconnectAttempts (handleAuthSuccess cl message) = 0"
    by (simp add: handleAuthSuccess_def startPing_def stopPing_def client_log_def Let_def)
  from first_delay [OF assms(7,8,9)] obtain t
    where t: "number_plus (number_of_nat 5000) (number_times (Finite r) (number_of_nat 1000))
                = Finite t" "5000 * 2 ^ 1074 \<le> t" "t \<le> 6000 * 2 ^ 1074"
    by blast
  have "number_times (number_of_nat 5000) (Math_pow2 0) = number_of_nat 5000"
    using times_pow2_of_nat [of 5000 0] by simp
  then have "reconnectTimer
                   (scheduleReconnect
                      (TunnelClient_new (options\<lparr>co_baseDelay := None, co_maxDelay := None\<rparr>) env)
                      (Finite r)) = Some (Finite t)"
    by (simp only: scheduleReconnect_timer)
       (simp add: TunnelClient_new_def number_or_def min_of_nat t(1))
  moreover have "number_le (number_of_nat 5000) (Finite t)" "number_le (Finite t) (number_of_nat 6000)"
    using t(2,3) by (simp_all add: number_of_nat_def)
  ultimately have first: "\<exists>t. reconnectTimer
                   (scheduleReconnect
                      (TunnelClient_new (options\<lparr>co_baseDelay := None, co_maxDelay := None\<rparr>) env)
                      (Finite r)) = Some t
                \<and> number_le (number_of_nat 5000) t \<and> number_le t (number_of_nat 6000)"
    by blast
  have body: "reconnectTimer (scheduleReconnect cl (Finite r))
                = Some (number_plus (Finite c) (Finite j))"
    by (simp only: scheduleReconnect_timer j(1) cap [unfolded n_def])
  show ?thesis
    unfolding Let_def cap [unfolded n_def] j(1)
    using body c_def [unfolded n_def] j0 j1 lo hi a first ex
      scheduleReconnect_attempts [of cl "Finite r"] client_step_attempts [of JSON_parse cl]
    by (intro conjI allI impI) (simp_all only: number.inject)
qed

lemma scheduleReconnect_delays:
  "baseDelay (scheduleReconnect cl random) = baseDelay cl"
  "maxDelay (scheduleReconnect cl random) = maxDelay cl"
  by (simp_all add: scheduleReconnect_def client_log_def Let_def)

lemma client0_delays:
  "baseDelay client0 = number_of_nat 5000" "maxDelay client0 = number_of_nat 60000"
  "reconnectAttempts client0 = 0"
  by (simp_all add: client0_def TunnelClient_new_def number_or_def)

lemma half_jitter: "number_times (Finite (2 ^ 1073)) (number_of_nat 1000) = number_of_nat 500"
  using times_half [of 500] by simp

lemma example_backoffs:
  "number_times (number_of_nat 5000) (Math_pow2 0) = number_of_nat 5000"
  "number_times (number_of_nat 5000) (Math_pow2 (Suc 0)) = number_of_nat 10000"
  "number_times (number_of_nat 5000) (Math_pow2 4) = number_of_nat 80000"
  using times_pow2_of_nat [of 5000 0] times_pow2_of_nat [of 5000 1] times_pow2_of_nat [of 5000 4]
  by simp_all

lemma example_mins:
  "Math_min (number_of_nat 5000) (number_of_nat 60000) = number_of_nat 5000"
  "Math_min (number_of_nat 10000) (number_of_nat 60000) = number_of_nat 10000"
  "Math_min (number_of_nat 80000) (number_of_nat 60000) = number_of_nat 60000"
  by (simp_all add: min_of_nat)

lemma example_sums:
  "number_plus (number_of_nat 5000) (number_of_nat 500) = number_of_nat 5500"
  "number_plus (number_of_nat 10000) (number_of_nat 500) = number_of_nat 10500"
  "number_plus (number_of_nat 60000) (number_of_nat 500) = number_of_nat 60500"
  using plus_of_nat [of 5000 500] plus_of_nat [of 10000 500] plus_of_nat [of 60000 500]
  by simp_all

theorem reconnect_delay_witness:
  "baseDelay client0 = Finite (5000 * 2 ^ 1074) \<and> maxDelay client0 = Finite (60000 * 2 ^ 1074)
   \<and> is_double (Finite (5000 * 2 ^ 1074)) \<and> is_double (Finite (60000 * 2 ^ 1074))
   \<and> is_double (Finite (2 ^ 1073))
   \<and> reconnectTimer (scheduleReconnect client0 (Finite (2 ^ 1073))) = Some (number_of_nat 5500)
   \<and> is_double (Finite (5000 * 2 ^ 1074 + 1000 * 2 ^ 1074))
   \<and> number_plus (number_of_nat 5000) (number_of_nat 1000) = number_of_nat 6000
   \<and> reconnectAttempts (scheduleReconnect client0 (Finite (2 ^ 1073))) = 1
   \<and> reconnectTimer (scheduleReconnect (scheduleReconnect client0 (Finite (2 ^ 1073)))
                        (Finite (2 ^ 1073)))
       = Some (number_of_nat 10500)"
proof -
  have b: "baseDelay client0 = Finite (5000 * 2 ^ 1074)"
    and m: "maxDelay client0 = Finite (60000 * 2 ^ 1074)"
    by (simp_all add: client0_delays number_of_nat_def)
  have db: "is_double (Finite (5000 * 2 ^ 1074))"
    and dm: "is_double (Finite (60000 * 2 ^ 1074))"
    using number_of_nat_double [of 5000] number_of_nat_double [of 60000]
    by (simp_all add: number_of_nat_def)
  have dr: "is_double (Finite (2 ^ 1073))"
    using is_double_shift [of 1 1073] by simp
  have t: "reconnectTimer (scheduleReconnect client0 (Finite (2 ^ 1073)))
             = Some (number_of_nat 5500)"
    by (simp only: scheduleReconnect_timer client0_delays half_jitter example_backoffs
        example_mins example_sums)
  have u: "reconnectTimer (scheduleReconnect (scheduleReconnect client0 (Finite (2 ^ 1073)))
                        (Finite (2 ^ 1073)))
       = Some (number_of_nat 10500)"
    by (simp only: scheduleReconnect_timer scheduleReconnect_delays scheduleReconnect_attempts
        client0_delays half_jitter add_0 One_nat_def example_backoffs example_mins example_sums)
  have ds: "is_double (Finite (5000 * 2 ^ 1074 + 1000 * 2 ^ 1074))"
    using number_of_nat_double [of 6000] by (simp add: number_of_nat_def)
  have e: "number_plus (number_of_nat 5000) (number_of_nat 1000) = number_of_nat 6000"
    using plus_of_nat [of 5000 1000] by simp
  show ?thesis
    using reconnect_delay_bounds
            [where cl = client0 and b = "5000 * 2 ^ 1074" and m = "60000 * 2 ^ 1074"
               and r = "2 ^ 1073", OF b _ db m _ dm dr]
          b m db dm dr t u ds e
    by (simp add: client0_delays)
qed

text \<open>
  Two inputs with the default delays. At the fifth attempt the backoff is capped: with
  the draw 1/2 the delay is 60500, below \<open>baseDelay * 2^4 = 80000\<close>. At the first attempt
  with the draw \<open>1 - 2^-52\<close>, a double below 1, the jitter is the double next but one
  below 1000 and the sum rounds to 6000: the delay is 6000, not less than 6000.
\<close>

lemma capped_example:
  "reconnectAttempts
     (scheduleReconnect
        (scheduleReconnect
           (scheduleReconnect (scheduleReconnect client0 (Finite 0)) (Finite 0)) (Finite 0))
        (Finite 0))
     = 4
   \<and> reconnectTimer
       (scheduleReconnect
          (scheduleReconnect
             (scheduleReconnect
                (scheduleReconnect (scheduleReconnect client0 (Finite 0)) (Finite 0)) (Finite 0))
             (Finite 0))
          (Finite (2 ^ 1073)))
       = Some (number_of_nat 60500)"
proof -
  have n: "reconnectAttempts
     (scheduleReconnect
        (scheduleReconnect
           (scheduleReconnect (scheduleReconnect client0 (Finite 0)) (Finite 0)) (Finite 0))
        (Finite 0))
     = 4"
    by (simp add: scheduleReconnect_attempts client0_delays)
  show ?thesis
    unfolding scheduleReconnect_timer n scheduleReconnect_delays client0_delays half_jitter
      example_backoffs example_mins example_sums
    by simp
qed

lemma rounded_jitter:
  "number_times (Finite (2 ^ 1074 - 2 ^ 1022)) (number_of_nat 1000)
     = Finite (1000 * 2 ^ 1074 - 2 ^ 1032)"
proof -
  have "nearest ((2 ^ 1074 - 2 ^ 1022) * (1000 * 2 ^ 1074)) 1074 = 1000 * 2 ^ 1074 - 2 ^ 1032"
    using nearest_cases [where N = "(2 ^ 1074 - 2 ^ 1022) * (1000 * 2 ^ 1074)" and b = 2158
        and k = 1074 and s = 2105 and q = "1000 * 2 ^ 43 - 2" and r = "48 * 2 ^ 2095"]
    by simp
  then show ?thesis
    by (simp add: number_of_nat_def fl_def Let_def)
qed

lemma rounded_sum:
  "number_plus (number_of_nat 5000) (Finite (1000 * 2 ^ 1074 - 2 ^ 1032)) = number_of_nat 6000"
proof -
  have "nearest (5000 * 2 ^ 1074 + (1000 * 2 ^ 1074 - 2 ^ 1032)) 0 = 6000 * 2 ^ 1074"
    using nearest_cases [where N = "5000 * 2 ^ 1074 + (1000 * 2 ^ 1074 - 2 ^ 1032)" and b = 1087
        and k = 0 and s = 1034 and q = "6000 * 2 ^ 40 - 1" and r = "3 * 2 ^ 1032"]
    by simp
  then show ?thesis
    by (simp add: number_of_nat_def fl_def Let_def)
qed

theorem reconnect_delay_counterexample:
  "reconnectAttempts
     (scheduleReconnect
        (scheduleReconnect
           (scheduleReconnect (scheduleReconnect client0 (Finite 0)) (Finite 0)) (Finite 0))
        (Finite 0))
     = 4
   \<and> reconnectTimer
       (scheduleReconnect
          (scheduleReconnect
             (scheduleReconnect
                (scheduleReconnect (scheduleReconnect client0 (Finite 0)) (Finite 0)) (Finite 0))
             (Finite 0))
          (Finite (2 ^ 1073)))
       = Some (number_of_nat 60500)
   \<and> number_times (baseDelay client0) (Math_pow2 4) = number_of_nat 80000
   \<and> \<not> number_le (number_of_nat 80000) (number_of_nat 60500)
   \<and> is_double (Finite (2 ^ 1074 - 2 ^ 1022))
   \<and> number_le (number_of_nat 0) (Finite (2 ^ 1074 - 2 ^ 1022))
   \<and> number_less (Finite (2 ^ 1074 - 2 ^ 1022)) (number_of_nat 1)
   \<and> reconnectTimer (scheduleReconnect client0 (Finite (2 ^ 1074 - 2 ^ 1022)))
       = Some (number_of_nat 6000)
   \<and> \<not> number_less (number_of_nat 6000) (number_of_nat 6000)"
proof -
  have d: "is_double (Finite (2 ^ 1074 - 2 ^ 1022))"
    using is_double_shift [of "2 ^ 52 - 1" 1022] by simp
  have t: "reconnectTimer (scheduleReconnect client0 (Finite (2 ^ 1074 - 2 ^ 1022)))
       = Some (number_of_nat 6000)"
    unfolding scheduleReconnect_timer client0_delays rounded_jitter example_backoffs
      example_mins rounded_sum
    by (rule refl)
  have r: "number_le (number_of_nat 0) (Finite (2 ^ 1074 - 2 ^ 1022))"
    "number_less (Finite (2 ^ 1074 - 2 ^ 1022)) (number_of_nat 1)"
    by (simp_all add: number_of_nat_def)
  show ?thesis
    using capped_example d t r
    by (simp add: client0_delays example_backoffs le_of_nat less_of_nat)
qed

end
